theory Spec2Isabelle
  imports Main "HOL-Library.Char_ord" "HOL-Library.List_Lexorder"
begin

section \<open>The chat-templating bridge of \<^verbatim>\<open>cgo_functions.go\<close>\<close>

text \<open>
  The Go file is marshaling glue around an embedded interpreter: it serializes a request,
  copies it into a C string, calls a C entry point, copies the C result back, frees both
  buffers and deserializes. Everything it does beyond returning a value (calls across the
  boundary, allocations, frees, log lines) is written into an explicit \<open>world\<close> that every
  operation takes and returns. What the C side and the Go runtime answer is not in the Go
  file; it is a parameter (\<open>runtime\<close>) that may depend on everything that happened so far.
\<close>

subsection \<open>Errors, log lines and events\<close>

text \<open>
  The file builds its errors with \<^verbatim>\<open>fmt.Errorf\<close>: a fixed message, or a prefix wrapping
  (\<^verbatim>\<open>%w\<close>) an error of \<^verbatim>\<open>encoding/json\<close>. The errors of that library are its
  \<^verbatim>\<open>SyntaxError\<close> (message and byte offset), its \<^verbatim>\<open>UnmarshalTypeError\<close> (the description of
  the JSON value and the Go type it did not fit; the offset and the field path, which
  differ between Go releases, are left out), and the two errors of \<^verbatim>\<open>json.Marshal\<close> on a
  value it cannot encode.
\<close>

datatype go_error =
    Errorf string
  | ErrorfW string go_error
  | SyntaxError string nat
  | UnmarshalTypeError string string
  | UnsupportedTypeError string
  | UnsupportedValueError string

text \<open>The two verbosity levels of \<^verbatim>\<open>pkg/utils/logging\<close> the file uses, by name.\<close>

datatype level = DEBUG | TRACE

type_synonym ptr = nat

datatype event =
    Py_InitializeGo
  | Py_InitChatTemplateModule
  | Py_CleanupChatTemplateModule
  | Py_FinalizeGo
  | Py_CallRenderJinjaTemplate ptr
  | Py_CallGetModelChatTemplate ptr
  | Py_ClearCaches
  | CString ptr string
  | ForeignAlloc ptr string
  | free ptr
  | Info level string string "(string \<times> nat) list"
  | Error level string "go_error option" string

record MemStats =
  Alloc :: nat
  TotalAlloc :: nat
  Sys :: nat
  NumGC :: nat

text \<open>
  The world: the chronological trace of events, the live C buffers with their bytes, and
  the next address an allocation returns.
\<close>

record world =
  trace :: "event list"
  heap :: "ptr \<rightharpoonup> string"
  next_ptr :: ptr

text \<open>
  What the collaborators answer, as functions of the history: the Go runtime's memory
  statistics, the status of the module-init entry point (a C int), the result of the
  render and fetch entry points on the C string they are given (\<open>None\<close> is the null
  pointer), and the result of the cache-clear entry point.
\<close>

record runtime =
  ReadMemStats :: "event list \<Rightarrow> MemStats"
  InitChatTemplateModule_status :: "event list \<Rightarrow> int"
  RenderJinjaTemplate_result :: "event list \<Rightarrow> string \<Rightarrow> string option"
  GetModelChatTemplate_result :: "event list \<Rightarrow> string \<Rightarrow> string option"
  ClearCaches_result :: "event list \<Rightarrow> string option"

definition emit :: "event \<Rightarrow> world \<Rightarrow> world" where
  "emit e w = w\<lparr>trace := trace w @ [e]\<rparr>"

subsection \<open>C strings\<close>

text \<open>A C string ends at its first NUL byte: that is what \<^verbatim>\<open>C.GoString\<close> and the C side read.\<close>

definition c_str :: "string \<Rightarrow> string" where
  "c_str s = takeWhile (\<lambda>c. c \<noteq> CHR 0x00) s"

definition deref :: "world \<Rightarrow> ptr \<Rightarrow> string" where
  "deref w p = (case heap w p of Some s \<Rightarrow> s | None \<Rightarrow> [])"

definition C_CString :: "string \<Rightarrow> world \<Rightarrow> ptr \<times> world" where
  "C_CString s w =
     (let p = next_ptr w
      in (p, emit (CString p s) (w\<lparr>heap := (heap w)(p \<mapsto> s), next_ptr := Suc p\<rparr>)))"

definition C_free :: "ptr \<Rightarrow> world \<Rightarrow> world" where
  "C_free p w = emit (free p) (w\<lparr>heap := (heap w)(p := None)\<rparr>)"

definition C_GoString :: "ptr \<Rightarrow> world \<Rightarrow> string" where
  "C_GoString p w = c_str (deref w p)"

text \<open>A C entry point that answers with a buffer allocates it; the null pointer allocates nothing.\<close>

definition foreign_return :: "string option \<Rightarrow> world \<Rightarrow> ptr option \<times> world" where
  "foreign_return r w =
     (case r of
        None \<Rightarrow> (None, w)
      | Some s \<Rightarrow>
          (let q = next_ptr w
           in (Some q, emit (ForeignAlloc q s) (w\<lparr>heap := (heap w)(q \<mapsto> s), next_ptr := Suc q\<rparr>))))"

definition C_Py_CallRenderJinjaTemplate :: "runtime \<Rightarrow> ptr \<Rightarrow> world \<Rightarrow> ptr option \<times> world" where
  "C_Py_CallRenderJinjaTemplate rt p w =
     foreign_return (RenderJinjaTemplate_result rt (trace w) (c_str (deref w p)))
       (emit (Py_CallRenderJinjaTemplate p) w)"

definition C_Py_CallGetModelChatTemplate :: "runtime \<Rightarrow> ptr \<Rightarrow> world \<Rightarrow> ptr option \<times> world" where
  "C_Py_CallGetModelChatTemplate rt p w =
     foreign_return (GetModelChatTemplate_result rt (trace w) (c_str (deref w p)))
       (emit (Py_CallGetModelChatTemplate p) w)"

definition C_Py_ClearCaches :: "runtime \<Rightarrow> world \<Rightarrow> ptr option \<times> world" where
  "C_Py_ClearCaches rt w =
     foreign_return (ClearCaches_result rt (trace w)) (emit Py_ClearCaches w)"

subsection \<open>Logging\<close>

text \<open>The line \<^verbatim>\<open>printMemStats\<close> writes for the statistics \<open>m\<close>.\<close>

definition stats_line :: "string \<Rightarrow> MemStats \<Rightarrow> event" where
  "stats_line label m =
     Info TRACE ''MemoryStats'' label
       [(''Alloc'', Alloc m), (''TotalAlloc'', TotalAlloc m), (''Sys'', Sys m), (''NumGC'', NumGC m)]"

definition printMemStats :: "runtime \<Rightarrow> string \<Rightarrow> world \<Rightarrow> world" where
  "printMemStats rt label w =
     (let m = ReadMemStats rt (trace w)
      in emit (stats_line label m) w)"

subsection \<open>Lifecycle\<close>

definition Initialize :: "runtime \<Rightarrow> world \<Rightarrow> go_error option \<times> world" where
  "Initialize rt w0 =
     (let w1 = emit (Info DEBUG ''Initialize'' ''Initializing Python interpreter'' []) w0;
          w2 = printMemStats rt ''Before Python Initialize'' w1;
          w3 = emit Py_InitializeGo w2;
          result = InitChatTemplateModule_status rt (trace w3);
          w4 = emit Py_InitChatTemplateModule w3
      in if result \<noteq> 0
         then (Some (Errorf ''failed to initialize chat template module''),
               emit (Error DEBUG ''Initialize'' None ''Failed to initialize chat template module'') w4)
         else (let w5 = printMemStats rt ''After Python Initialize'' w4
               in (None, emit (Info DEBUG ''Initialize'' ''Python interpreter initialized successfully'' []) w5)))"

definition Finalize :: "runtime \<Rightarrow> world \<Rightarrow> world" where
  "Finalize rt w0 =
     (let w1 = emit (Info DEBUG ''Finalize'' ''Finalizing Python interpreter'' []) w0;
          w2 = printMemStats rt ''Before Python Finalize'' w1;
          w3 = emit Py_CleanupChatTemplateModule w2;
          w4 = emit Py_FinalizeGo w3;
          w5 = printMemStats rt ''After Python Finalize'' w4
      in emit (Info DEBUG ''Finalize'' ''Python interpreter finalized successfully'' []) w5)"

subsection \<open>The boundary calls\<close>

text \<open>
  The two deferred functions of \<^verbatim>\<open>RenderChatTemplate\<close> and \<^verbatim>\<open>FetchChatTemplate\<close>. Deferred
  calls run last-in first-out when the function returns: the result buffer's, when it was
  registered, before the request buffer's.
\<close>

definition free_request :: "string \<Rightarrow> ptr \<Rightarrow> world \<Rightarrow> world" where
  "free_request name cReqJSON w =
     emit (Info DEBUG name ''Freed C string for request'' []) (C_free cReqJSON w)"

definition free_result :: "string \<Rightarrow> ptr \<Rightarrow> world \<Rightarrow> world" where
  "free_result name cResult w =
     emit (Info DEBUG name ''Freed C string result from Python'' []) (C_free cResult w)"

text \<open>
  \<^verbatim>\<open>RenderChatTemplate\<close>, with \<^verbatim>\<open>json.Marshal\<close> on the request type and \<^verbatim>\<open>json.Unmarshal\<close>
  into the response type as parameters. The request is a pointer (\<open>None\<close> is nil); the
  result is Go's pair of a response pointer and an error.
\<close>

definition RenderChatTemplate ::
  "('req \<Rightarrow> go_error + string) \<Rightarrow> (string \<Rightarrow> go_error + 'resp) \<Rightarrow> runtime \<Rightarrow>
     'req option \<Rightarrow> world \<Rightarrow> ('resp option \<times> go_error option) \<times> world" where
  "RenderChatTemplate json_Marshal json_Unmarshal rt req w0 =
     (let w1 = emit (Info DEBUG ''RenderChatTemplate'' ''RenderChatTemplate called'' []) w0;
          w2 = printMemStats rt ''Before RenderChatTemplate'' w1
      in case req of
           None \<Rightarrow>
             ((None, Some (Errorf ''received nil request'')),
              emit (Error DEBUG ''RenderChatTemplate'' None ''Received nil request'') w2)
         | Some r \<Rightarrow>
            (case json_Marshal r of
               Inl err \<Rightarrow>
                 ((None, Some (ErrorfW ''failed to marshal request: '' err)),
                  emit (Error DEBUG ''RenderChatTemplate'' (Some err) ''Failed to marshal request'') w2)
             | Inr reqJSON \<Rightarrow>
                (let (cReqJSON, w3) = C_CString reqJSON w2;
                     w4 = emit (Info DEBUG ''RenderChatTemplate'' ''Allocated C string for request''
                                  [(''bytes'', length reqJSON)]) w3;
                     (cResult, w5) = C_Py_CallRenderJinjaTemplate rt cReqJSON w4
                 in case cResult of
                      None \<Rightarrow>
                        ((None, Some (Errorf ''python render_jinja_template failed'')),
                         free_request ''RenderChatTemplate'' cReqJSON
                           (emit (Error DEBUG ''RenderChatTemplate'' None ''C function returned nil'') w5))
                    | Some cRes \<Rightarrow>
                       (let resultJSON = C_GoString cRes w5;
                            w6 = emit (Info DEBUG ''RenderChatTemplate'' ''Received JSON from Python''
                                         [(''length'', length resultJSON)]) w5
                        in case json_Unmarshal resultJSON of
                             Inl err \<Rightarrow>
                               ((None, Some (ErrorfW ''failed to unmarshal response: '' err)),
                                free_request ''RenderChatTemplate'' cReqJSON
                                  (free_result ''RenderChatTemplate'' cRes
                                     (emit (Error DEBUG ''RenderChatTemplate'' (Some err)
                                              ''Failed to unmarshal response'') w6)))
                           | Inr response \<Rightarrow>
                               ((Some response, None),
                                free_request ''RenderChatTemplate'' cReqJSON
                                  (free_result ''RenderChatTemplate'' cRes
                                     (printMemStats rt ''After RenderChatTemplate'' w6)))))))"

text \<open>
  The response of the fetch entry point. \<open>'v\<close> is the type of the opaque values
  (\<^verbatim>\<open>interface{}\<close>); a Go map is the list of its entries in key order, \<open>None\<close> the nil map. The fields are
  \<^verbatim>\<open>ChatTemplate\<close> and \<^verbatim>\<open>ChatTemplateKWArgs\<close>, suffixed because the request types have
  fields of the same names.
\<close>

record 'v FetchChatTemplateResponse =
  ChatTemplate_resp :: string
  ChatTemplateKWArgs_resp :: "(string \<times> 'v) list option"

text \<open>
  \<^verbatim>\<open>FetchChatTemplate\<close> takes its request by value and returns the template, the keyword
  arguments and an error.
\<close>

definition FetchChatTemplate ::
  "('req \<Rightarrow> go_error + string) \<Rightarrow> (string \<Rightarrow> go_error + 'v FetchChatTemplateResponse) \<Rightarrow>
     runtime \<Rightarrow> 'req \<Rightarrow> world \<Rightarrow>
     (string \<times> (string \<times> 'v) list option \<times> go_error option) \<times> world" where
  "FetchChatTemplate json_Marshal json_Unmarshal rt req w0 =
     (let w1 = emit (Info DEBUG ''FetchChatTemplate'' ''FetchChatTemplate called'' []) w0;
          w2 = printMemStats rt ''Before FetchChatTemplate'' w1
      in case json_Marshal req of
           Inl err \<Rightarrow>
             (([], None, Some (ErrorfW ''failed to marshal request: '' err)),
              emit (Error DEBUG ''FetchChatTemplate'' (Some err) ''Failed to marshal request'') w2)
         | Inr reqJSON \<Rightarrow>
            (let (cReqJSON, w3) = C_CString reqJSON w2;
                 w4 = emit (Info DEBUG ''FetchChatTemplate'' ''Allocated C string for request''
                              [(''bytes'', length reqJSON)]) w3;
                 (cResult, w5) = C_Py_CallGetModelChatTemplate rt cReqJSON w4
             in case cResult of
                  None \<Rightarrow>
                    (([], None, Some (Errorf ''python get_model_chat_template failed'')),
                     free_request ''FetchChatTemplate'' cReqJSON
                       (emit (Error DEBUG ''FetchChatTemplate'' None ''C function returned nil'') w5))
                | Some cRes \<Rightarrow>
                   (let resultJSON = C_GoString cRes w5;
                        w6 = emit (Info DEBUG ''FetchChatTemplate'' ''Received JSON from Python''
                                     [(''length'', length resultJSON)]) w5
                    in case json_Unmarshal resultJSON of
                         Inl err \<Rightarrow>
                           (([], None, Some (ErrorfW ''failed to unmarshal response: '' err)),
                            free_request ''FetchChatTemplate'' cReqJSON
                              (free_result ''FetchChatTemplate'' cRes
                                 (emit (Error DEBUG ''FetchChatTemplate'' (Some err)
                                          ''Failed to unmarshal response'') w6)))
                       | Inr response \<Rightarrow>
                           ((ChatTemplate_resp response, ChatTemplateKWArgs_resp response, None),
                            free_request ''FetchChatTemplate'' cReqJSON
                              (free_result ''FetchChatTemplate'' cRes
                                 (printMemStats rt ''After FetchChatTemplate'' w6))))))"

text \<open>\<^verbatim>\<open>ClearCaches\<close>: the one deferred call frees the sentinel buffer, without a log line.\<close>

definition ClearCaches :: "runtime \<Rightarrow> world \<Rightarrow> go_error option \<times> world" where
  "ClearCaches rt w0 =
     (let w1 = emit (Info TRACE ''ClearCaches'' ''ClearCaches called'' []) w0;
          w2 = printMemStats rt ''Before ClearCaches'' w1;
          (cResult, w3) = C_Py_ClearCaches rt w2
      in case cResult of
           None \<Rightarrow>
             (Some (Errorf ''failed to clear caches''),
              emit (Error TRACE ''ClearCaches'' None ''Failed to clear caches'') w3)
         | Some cRes \<Rightarrow>
            (let w4 = printMemStats rt ''After ClearCaches'' w3;
                 w5 = emit (Info TRACE ''ClearCaches'' ''Caches cleared successfully'' []) w4
             in (None, C_free cRes w5)))"

subsection \<open>Reading the trace\<close>

text \<open>
  The calls that cross into the interpreter, the buffers allocated and the buffers freed,
  as they appear in a trace.
\<close>

fun is_boundary_call :: "event \<Rightarrow> bool" where
  "is_boundary_call Py_InitializeGo = True"
| "is_boundary_call Py_InitChatTemplateModule = True"
| "is_boundary_call Py_CleanupChatTemplateModule = True"
| "is_boundary_call Py_FinalizeGo = True"
| "is_boundary_call (Py_CallRenderJinjaTemplate _) = True"
| "is_boundary_call (Py_CallGetModelChatTemplate _) = True"
| "is_boundary_call Py_ClearCaches = True"
| "is_boundary_call _ = False"

fun is_render_call :: "event \<Rightarrow> bool" where
  "is_render_call (Py_CallRenderJinjaTemplate _) = True"
| "is_render_call _ = False"

fun allocated :: "event \<Rightarrow> ptr list" where
  "allocated (CString p _) = [p]"
| "allocated (ForeignAlloc p _) = [p]"
| "allocated _ = []"

fun freed :: "event \<Rightarrow> ptr list" where
  "freed (free p) = [p]"
| "freed _ = []"

definition allocs :: "event list \<Rightarrow> ptr list" where
  "allocs es = concat (map allocated es)"

definition frees :: "event list \<Rightarrow> ptr list" where
  "frees es = concat (map freed es)"

text \<open>The events an operation added to the trace it started from.\<close>

definition new_events :: "world \<Rightarrow> world \<Rightarrow> event list" where
  "new_events w0 w = drop (length (trace w0)) (trace w)"

text \<open>
  The lifecycle as the trace shows it: the interpreter is ready when the last lifecycle
  event is a module-init call that reported zero, which only the history can tell; what
  the trace alone tells is whether \<^verbatim>\<open>Initialize\<close> has started and whether \<^verbatim>\<open>Finalize\<close> has.
\<close>

definition interpreter_started :: "event list \<Rightarrow> bool" where
  "interpreter_started es = (Py_InitializeGo \<in> set es)"

definition interpreter_stopped :: "event list \<Rightarrow> bool" where
  "interpreter_stopped es = (Py_FinalizeGo \<in> set es)"

text \<open>
  Buffer tracking over a stretch of trace: \<open>track live es\<close> runs the allocations and
  frees of \<open>es\<close> from the buffers \<open>live\<close> and gives the buffers live at the end; it is
  \<open>None\<close> when an address is allocated while live, or freed while not live (a double free,
  or a free of something never allocated).
\<close>

fun track :: "ptr list \<Rightarrow> event list \<Rightarrow> ptr list option" where
  "track live [] = Some live"
| "track live (CString p _ # es) = (if p \<in> set live then None else track (p # live) es)"
| "track live (ForeignAlloc p _ # es) = (if p \<in> set live then None else track (p # live) es)"
| "track live (free p # es) = (if p \<in> set live then track (removeAll p live) es else None)"
| "track live (_ # es) = track live es"

text \<open>
  What the render (fetch) entry point answers in a call of \<^verbatim>\<open>RenderChatTemplate\<close>
  (\<^verbatim>\<open>FetchChatTemplate\<close>) that starts in world \<open>w0\<close> and has serialized its request to
  \<open>reqJSON\<close>: the history then holds the two opening log lines, the allocation of the C
  string and its log line.
\<close>

definition render_answer :: "runtime \<Rightarrow> string \<Rightarrow> world \<Rightarrow> string option" where
  "render_answer rt reqJSON w0 =
     RenderJinjaTemplate_result rt
       (trace (emit (Info DEBUG ''RenderChatTemplate'' ''Allocated C string for request''
                 [(''bytes'', length reqJSON)])
          (snd (C_CString reqJSON
             (printMemStats rt ''Before RenderChatTemplate''
                (emit (Info DEBUG ''RenderChatTemplate'' ''RenderChatTemplate called'' []) w0))))))
       (c_str reqJSON)"

definition fetch_answer :: "runtime \<Rightarrow> string \<Rightarrow> world \<Rightarrow> string option" where
  "fetch_answer rt reqJSON w0 =
     GetModelChatTemplate_result rt
       (trace (emit (Info DEBUG ''FetchChatTemplate'' ''Allocated C string for request''
                 [(''bytes'', length reqJSON)])
          (snd (C_CString reqJSON
             (printMemStats rt ''Before FetchChatTemplate''
                (emit (Info DEBUG ''FetchChatTemplate'' ''FetchChatTemplate called'' []) w0))))))
       (c_str reqJSON)"

text \<open>
  The memory statistics \<^verbatim>\<open>FetchChatTemplate\<close> reads after a successful call: the history
  then also holds the call of the entry point, the result buffer and the log line of its
  length.
\<close>

definition fetch_stats_after :: "runtime \<Rightarrow> string \<Rightarrow> world \<Rightarrow> MemStats" where
  "fetch_stats_after rt reqJSON w0 =
     (let w4 = emit (Info DEBUG ''FetchChatTemplate'' ''Allocated C string for request''
                       [(''bytes'', length reqJSON)])
                 (snd (C_CString reqJSON
                    (printMemStats rt ''Before FetchChatTemplate''
                       (emit (Info DEBUG ''FetchChatTemplate'' ''FetchChatTemplate called'' []) w0))));
          w5 = snd (C_Py_CallGetModelChatTemplate rt (next_ptr w0) w4)
      in ReadMemStats rt
           (trace (emit (Info DEBUG ''FetchChatTemplate'' ''Received JSON from Python''
                     [(''length'', (case fetch_answer rt reqJSON w0 of
                                      None \<Rightarrow> 0
                                    | Some res \<Rightarrow> length (c_str res)))]) w5)))"

text \<open>The diagnostic output: the log lines of a stretch of trace, at every verbosity.\<close>

fun is_log :: "event \<Rightarrow> bool" where
  "is_log (Info _ _ _ _) = True"
| "is_log (Error _ _ _ _) = True"
| "is_log _ = False"



section \<open>The decoder of \<^verbatim>\<open>encoding/json\<close>\<close>

text \<open>
  \<^verbatim>\<open>json.Unmarshal\<close> works in two passes: \<^verbatim>\<open>checkValid\<close> runs the scanner, a state machine
  fed one byte at a time, over the whole input and reports the first syntax error; then
  the decoder walks the (now known to be valid) input and stores values into the target.
  The scanner is transcribed state by state, with the names of \<^verbatim>\<open>scanner.go\<close>; the only
  addition is that it keeps the values it has read, so that the second pass is a function
  of a \<open>json\<close> tree.
\<close>

datatype json =
    JNull
  | JBool bool
  | JNumber string
  | JString string
  | JArray "json list"
  | JObject "(string \<times> json) list"

text \<open>
  \<open>JNumber\<close> keeps the literal: what number it is depends on the type it is stored into.
  \<open>JString\<close> and the keys of \<open>JObject\<close> hold the unquoted Go string.
\<close>

subsection \<open>Bytes\<close>

definition byte :: "char \<Rightarrow> nat" where
  "byte c = of_char c"

definition isSpace :: "char \<Rightarrow> bool" where
  "isSpace c = (c = CHR '' '' \<or> c = CHR 0x09 \<or> c = CHR 0x0D \<or> c = CHR 0x0A)"

definition isDigit :: "char \<Rightarrow> bool" where
  "isDigit c = (48 \<le> byte c \<and> byte c \<le> 57)"

definition isHex :: "char \<Rightarrow> bool" where
  "isHex c = (isDigit c \<or> (97 \<le> byte c \<and> byte c \<le> 102) \<or> (65 \<le> byte c \<and> byte c \<le> 70))"

definition hexval :: "char \<Rightarrow> nat" where
  "hexval c =
     (if isDigit c then byte c - 48
      else if 97 \<le> byte c then byte c - 97 + 10
      else byte c - 65 + 10)"

definition lowerhex :: "nat \<Rightarrow> char" where
  "lowerhex n = ''0123456789abcdef'' ! (n mod 16)"

subsection \<open>UTF-8\<close>

definition in_range :: "nat \<Rightarrow> nat \<Rightarrow> string \<Rightarrow> nat \<Rightarrow> bool" where
  "in_range lo hi s i = (i < length s \<and> lo \<le> byte (s ! i) \<and> byte (s ! i) \<le> hi)"

text \<open>
  \<^verbatim>\<open>utf8.DecodeRune\<close>, as far as the codec needs it: the number of bytes of the well-formed
  encoding at the head of \<open>s\<close>, or 0 when there is none (Go: \<^verbatim>\<open>RuneError\<close> of width 1).
  Overlong forms, surrogates and values above U+10FFFF are not well-formed.
\<close>

definition utf8_width :: "string \<Rightarrow> nat" where
  "utf8_width s =
     (case s of
        [] \<Rightarrow> 0
      | c # _ \<Rightarrow>
         (let b = byte c in
          if b < 0x80 then 1
          else if 0xC2 \<le> b \<and> b \<le> 0xDF then (if in_range 0x80 0xBF s 1 then 2 else 0)
          else if 0xE0 \<le> b \<and> b \<le> 0xEF then
            (if in_range (if b = 0xE0 then 0xA0 else 0x80) (if b = 0xED then 0x9F else 0xBF) s 1
                \<and> in_range 0x80 0xBF s 2 then 3 else 0)
          else if 0xF0 \<le> b \<and> b \<le> 0xF4 then
            (if in_range (if b = 0xF0 then 0x90 else 0x80) (if b = 0xF4 then 0x8F else 0xBF) s 1
                \<and> in_range 0x80 0xBF s 2 \<and> in_range 0x80 0xBF s 3 then 4 else 0)
          else 0))"

definition ReplacementChar :: string where
  "ReplacementChar = [CHR 0xEF, CHR 0xBF, CHR 0xBD]"

text \<open>\<^verbatim>\<open>utf8.EncodeRune\<close>: a surrogate or a value above U+10FFFF is written as U+FFFD.\<close>

definition EncodeRune :: "nat \<Rightarrow> string" where
  "EncodeRune r =
     (if r < 0x80 then [char_of r]
      else if r < 0x800 then [char_of (0xC0 + r div 64), char_of (0x80 + r mod 64)]
      else if (0xD800 \<le> r \<and> r < 0xE000) \<or> 0x10FFFF < r then ReplacementChar
      else if r < 0x10000 then
        [char_of (0xE0 + r div 4096), char_of (0x80 + (r div 64) mod 64), char_of (0x80 + r mod 64)]
      else
        [char_of (0xF0 + r div 262144), char_of (0x80 + (r div 4096) mod 64),
         char_of (0x80 + (r div 64) mod 64), char_of (0x80 + r mod 64)])"

subsection \<open>Unquoting a string literal\<close>

text \<open>
  \<^verbatim>\<open>getu4\<close>: the value of a \<^verbatim>\<open>\uXXXX\<close> escape at the head of \<open>s\<close>, \<open>None\<close> (Go: -1) when
  \<open>s\<close> does not start with one.
\<close>

definition getu4 :: "string \<Rightarrow> nat option" where
  "getu4 s =
     (if 6 \<le> length s \<and> s ! 0 = CHR 0x5C \<and> s ! 1 = CHR ''u''
         \<and> isHex (s ! 2) \<and> isHex (s ! 3) \<and> isHex (s ! 4) \<and> isHex (s ! 5)
      then Some (hexval (s ! 2) * 4096 + hexval (s ! 3) * 256 + hexval (s ! 4) * 16 + hexval (s ! 5))
      else None)"

text \<open>
  \<^verbatim>\<open>utf16.DecodeRune\<close> on a first escape \<open>r1\<close> and what follows it: the code point of a
  valid surrogate pair.
\<close>

definition surrogate_pair :: "nat \<Rightarrow> nat option \<Rightarrow> nat option" where
  "surrogate_pair r1 r2 =
     (case r2 of
        None \<Rightarrow> None
      | Some r \<Rightarrow>
          if 0xD800 \<le> r1 \<and> r1 < 0xDC00 \<and> 0xDC00 \<le> r \<and> r < 0xE000
          then Some ((r1 - 0xD800) * 1024 + (r - 0xDC00) + 0x10000)
          else None)"

definition escape_char :: "char \<Rightarrow> char option" where
  "escape_char e =
     (if e = CHR 0x22 \<or> e = CHR 0x5C \<or> e = CHR ''/'' \<or> e = CHR 0x27 then Some e
      else if e = CHR ''b'' then Some (CHR 0x08)
      else if e = CHR ''f'' then Some (CHR 0x0C)
      else if e = CHR ''n'' then Some (CHR 0x0A)
      else if e = CHR ''r'' then Some (CHR 0x0D)
      else if e = CHR ''t'' then Some (CHR 0x09)
      else None)"

text \<open>
  \<^verbatim>\<open>unquoteBytes\<close> on the bytes between the quotes. Bytes that are not well-formed UTF-8
  are not an error: each is replaced by U+FFFD. So is a \<^verbatim>\<open>\u\<close> escape of a surrogate that
  is not the first half of a valid pair. \<open>None\<close> is Go's \<^verbatim>\<open>ok = false\<close>.
\<close>

function unquote :: "string \<Rightarrow> string option" where
  "unquote [] = Some []"
| "unquote (c # cs) =
     (if c = CHR 0x5C then
        (case cs of
           [] \<Rightarrow> None
         | e # rest \<Rightarrow>
            if e = CHR ''u'' then
              (case getu4 (c # cs) of
                 None \<Rightarrow> None
               | Some rr \<Rightarrow>
                  if 0xD800 \<le> rr \<and> rr < 0xE000 then
                    (case surrogate_pair rr (getu4 (drop 5 cs)) of
                       Some dec \<Rightarrow> map_option ((@) (EncodeRune dec)) (unquote (drop 11 cs))
                     | None \<Rightarrow> map_option ((@) ReplacementChar) (unquote (drop 5 cs)))
                  else map_option ((@) (EncodeRune rr)) (unquote (drop 5 cs)))
            else
              (case escape_char e of
                 None \<Rightarrow> None
               | Some x \<Rightarrow> map_option ((#) x) (unquote rest)))
      else if c = CHR 0x22 \<or> byte c < 0x20 then None
      else if byte c < 0x80 then map_option ((#) c) (unquote cs)
      else if utf8_width (c # cs) = 0 then map_option ((@) ReplacementChar) (unquote cs)
      else map_option ((@) (take (utf8_width (c # cs)) (c # cs)))
             (unquote (drop (utf8_width (c # cs) - 1) cs)))"
  by pat_completeness auto
termination
  by (relation "measure length") auto

subsection \<open>The scanner\<close>

datatype step =
    BeginValue | BeginValueOrEmpty | BeginStringOrEmpty | BeginString | EndValue | EndTop
  | InString | InStringEsc | InStringEscU | InStringEscU1 | InStringEscU12 | InStringEscU123
  | Neg | St1 | St0 | Dot | Dot0 | StE | ESign | E0
  | StT | Tr | Tru | StF | Fa | Fal | Fals | StN | Nu | Nul

text \<open>
  The parse stack. Go's entries are \<^verbatim>\<open>parseObjectKey\<close>, \<^verbatim>\<open>parseObjectValue\<close> and
  \<^verbatim>\<open>parseArrayValue\<close>; here each also holds what was read of its container so far, newest
  first, and for an object the key being read.
\<close>

datatype frame =
    ArrayValue "json list"
  | ObjectKey "(string \<times> json) list" string
  | ObjectValue "(string \<times> json) list" string

record scanner =
  step :: step
  parseState :: "frame list"
  lit :: string
  top :: "json option"

text \<open>
  \<^verbatim>\<open>quoteChar\<close> formats the offending byte for the message: the byte is converted to the
  string of the code point of the same number and quoted by \<^verbatim>\<open>strconv.Quote\<close>.
\<close>

definition quoteChar :: "char \<Rightarrow> string" where
  "quoteChar c =
     (let r = byte c in
      if r = 0x27 then [CHR 0x27, CHR 0x5C, CHR 0x27, CHR 0x27]
      else if r = 0x22 then [CHR 0x27, CHR 0x22, CHR 0x27]
      else [CHR 0x27] @
        (if r = 0x5C then [CHR 0x5C, CHR 0x5C]
         else if 0x20 \<le> r \<and> r < 0x7F then [c]
         else if 0xA1 \<le> r \<and> r \<noteq> 0xAD then [char_of (0xC0 + r div 64), char_of (0x80 + r mod 64)]
         else if r = 7 then [CHR 0x5C, CHR ''a'']
         else if r = 8 then [CHR 0x5C, CHR ''b'']
         else if r = 12 then [CHR 0x5C, CHR ''f'']
         else if r = 10 then [CHR 0x5C, CHR ''n'']
         else if r = 13 then [CHR 0x5C, CHR ''r'']
         else if r = 9 then [CHR 0x5C, CHR ''t'']
         else if r = 11 then [CHR 0x5C, CHR ''v'']
         else if r < 0x20 \<or> r = 0x7F then [CHR 0x5C, CHR ''x'', lowerhex (r div 16), lowerhex r]
         else [CHR 0x5C, CHR ''u'', CHR ''0'', CHR ''0'', lowerhex (r div 16), lowerhex r])
        @ [CHR 0x27])"

definition scan_error :: "nat \<Rightarrow> char \<Rightarrow> string \<Rightarrow> go_error + scanner" where
  "scan_error bytes c context =
     Inl (SyntaxError (''invalid character '' @ quoteChar c @ '' '' @ context) bytes)"

definition maxNestingDepth :: nat where
  "maxNestingDepth = 10000"

text \<open>A finished value goes into the container on top of the stack.\<close>

fun attach :: "json \<Rightarrow> frame list \<Rightarrow> frame list" where
  "attach v [] = []"
| "attach v (ArrayValue xs # fs) = ArrayValue (v # xs) # fs"
| "attach v (ObjectKey kvs k # fs) = ObjectKey kvs (case v of JString key \<Rightarrow> key | _ \<Rightarrow> k) # fs"
| "attach v (ObjectValue kvs k # fs) = ObjectValue ((k, v) # kvs) k # fs"

definition complete :: "json \<Rightarrow> scanner \<Rightarrow> scanner" where
  "complete v s =
     s\<lparr>step := EndValue, parseState := attach v (parseState s), lit := [],
       top := (if parseState s = [] then Some v else top s)\<rparr>"

definition popParseState :: "json \<Rightarrow> frame list \<Rightarrow> scanner \<Rightarrow> scanner" where
  "popParseState v fs s =
     (if fs = [] then s\<lparr>step := EndTop, parseState := [], top := Some v\<rparr>
      else s\<lparr>step := EndValue, parseState := attach v fs\<rparr>)"

definition pushParseState :: "nat \<Rightarrow> char \<Rightarrow> frame \<Rightarrow> step \<Rightarrow> scanner \<Rightarrow> go_error + scanner" where
  "pushParseState bytes c f st s =
     (if length (f # parseState s) \<le> maxNestingDepth
      then Inr (s\<lparr>step := st, parseState := f # parseState s\<rparr>)
      else scan_error bytes c ''exceeded max depth'')"

definition stateEndTop :: "scanner \<Rightarrow> nat \<Rightarrow> char \<Rightarrow> go_error + scanner" where
  "stateEndTop s bytes c =
     (if isSpace c then Inr s else scan_error bytes c ''after top-level value'')"

definition stateEndValue :: "scanner \<Rightarrow> nat \<Rightarrow> char \<Rightarrow> go_error + scanner" where
  "stateEndValue s bytes c =
     (case parseState s of
        [] \<Rightarrow> stateEndTop (s\<lparr>step := EndTop\<rparr>) bytes c
      | f # fs \<Rightarrow>
          if isSpace c then Inr (s\<lparr>step := EndValue\<rparr>)
          else (case f of
                  ObjectKey kvs k \<Rightarrow>
                    if c = CHR '':''
                    then Inr (s\<lparr>step := BeginValue, parseState := ObjectValue kvs k # fs\<rparr>)
                    else scan_error bytes c ''after object key''
                | ObjectValue kvs k \<Rightarrow>
                    if c = CHR '',''
                    then Inr (s\<lparr>step := BeginString, parseState := ObjectKey kvs [] # fs\<rparr>)
                    else if c = CHR ''}'' then Inr (popParseState (JObject (rev kvs)) fs s)
                    else scan_error bytes c ''after object key:value pair''
                | ArrayValue xs \<Rightarrow>
                    if c = CHR '','' then Inr (s\<lparr>step := BeginValue\<rparr>)
                    else if c = CHR '']'' then Inr (popParseState (JArray (rev xs)) fs s)
                    else scan_error bytes c ''after array element''))"

definition stateBeginValue :: "scanner \<Rightarrow> nat \<Rightarrow> char \<Rightarrow> go_error + scanner" where
  "stateBeginValue s bytes c =
     (if isSpace c then Inr s
      else if c = CHR ''{'' then pushParseState bytes c (ObjectKey [] []) BeginStringOrEmpty s
      else if c = CHR ''['' then pushParseState bytes c (ArrayValue []) BeginValueOrEmpty s
      else if c = CHR 0x22 then Inr (s\<lparr>step := InString, lit := []\<rparr>)
      else if c = CHR ''-'' then Inr (s\<lparr>step := Neg, lit := [c]\<rparr>)
      else if c = CHR ''0'' then Inr (s\<lparr>step := St0, lit := [c]\<rparr>)
      else if c = CHR ''t'' then Inr (s\<lparr>step := StT\<rparr>)
      else if c = CHR ''f'' then Inr (s\<lparr>step := StF\<rparr>)
      else if c = CHR ''n'' then Inr (s\<lparr>step := StN\<rparr>)
      else if 49 \<le> byte c \<and> byte c \<le> 57 then Inr (s\<lparr>step := St1, lit := [c]\<rparr>)
      else scan_error bytes c ''looking for beginning of value'')"

definition stateBeginValueOrEmpty :: "scanner \<Rightarrow> nat \<Rightarrow> char \<Rightarrow> go_error + scanner" where
  "stateBeginValueOrEmpty s bytes c =
     (if isSpace c then Inr s
      else if c = CHR '']'' then stateEndValue s bytes c
      else stateBeginValue (s\<lparr>step := BeginValue\<rparr>) bytes c)"

definition stateBeginString :: "scanner \<Rightarrow> nat \<Rightarrow> char \<Rightarrow> go_error + scanner" where
  "stateBeginString s bytes c =
     (if isSpace c then Inr s
      else if c = CHR 0x22 then Inr (s\<lparr>step := InString, lit := []\<rparr>)
      else scan_error bytes c ''looking for beginning of object key string'')"

definition stateBeginStringOrEmpty :: "scanner \<Rightarrow> nat \<Rightarrow> char \<Rightarrow> go_error + scanner" where
  "stateBeginStringOrEmpty s bytes c =
     (if isSpace c then Inr s
      else if c = CHR ''}'' then
        (case parseState s of
           ObjectKey kvs k # fs \<Rightarrow> stateEndValue (s\<lparr>parseState := ObjectValue kvs k # fs\<rparr>) bytes c
         | _ \<Rightarrow> stateEndValue s bytes c)
      else stateBeginString (s\<lparr>step := BeginString\<rparr>) bytes c)"

text \<open>
  Inside a string literal every byte from 0x20 on is accepted, whether or not it is
  UTF-8. At the closing quote the literal is unquoted; the scanner has admitted only
  literals that \<open>unquote\<close> accepts, and Go panics with the message below otherwise.
\<close>

definition stateInString :: "scanner \<Rightarrow> nat \<Rightarrow> char \<Rightarrow> go_error + scanner" where
  "stateInString s bytes c =
     (if c = CHR 0x22 then
        (case unquote (lit s) of
           Some str \<Rightarrow> Inr (complete (JString str) s)
         | None \<Rightarrow> Inl (SyntaxError ''JSON decoder out of sync - data changing underfoot?'' bytes))
      else if c = CHR 0x5C then Inr (s\<lparr>step := InStringEsc, lit := lit s @ [c]\<rparr>)
      else if byte c < 0x20 then scan_error bytes c ''in string literal''
      else Inr (s\<lparr>lit := lit s @ [c]\<rparr>))"

definition stateInStringEsc :: "scanner \<Rightarrow> nat \<Rightarrow> char \<Rightarrow> go_error + scanner" where
  "stateInStringEsc s bytes c =
     (if c \<in> set [CHR ''b'', CHR ''f'', CHR ''n'', CHR ''r'', CHR ''t'', CHR 0x5C, CHR ''/'', CHR 0x22]
      then Inr (s\<lparr>step := InString, lit := lit s @ [c]\<rparr>)
      else if c = CHR ''u'' then Inr (s\<lparr>step := InStringEscU, lit := lit s @ [c]\<rparr>)
      else scan_error bytes c ''in string escape code'')"

definition stateInStringEscU :: "step \<Rightarrow> scanner \<Rightarrow> nat \<Rightarrow> char \<Rightarrow> go_error + scanner" where
  "stateInStringEscU next s bytes c =
     (if isHex c then Inr (s\<lparr>step := next, lit := lit s @ [c]\<rparr>)
      else scan_error bytes c
             ([CHR ''i'', CHR ''n'', CHR '' '', CHR 0x5C] @ ''u hexadecimal character escape''))"

definition state0 :: "scanner \<Rightarrow> nat \<Rightarrow> char \<Rightarrow> go_error + scanner" where
  "state0 s bytes c =
     (if c = CHR ''.'' then Inr (s\<lparr>step := Dot, lit := lit s @ [c]\<rparr>)
      else if c = CHR ''e'' \<or> c = CHR ''E'' then Inr (s\<lparr>step := StE, lit := lit s @ [c]\<rparr>)
      else stateEndValue (complete (JNumber (lit s)) s) bytes c)"

definition state1 :: "scanner \<Rightarrow> nat \<Rightarrow> char \<Rightarrow> go_error + scanner" where
  "state1 s bytes c =
     (if isDigit c then Inr (s\<lparr>step := St1, lit := lit s @ [c]\<rparr>)
      else state0 s bytes c)"

definition stateNeg :: "scanner \<Rightarrow> nat \<Rightarrow> char \<Rightarrow> go_error + scanner" where
  "stateNeg s bytes c =
     (if c = CHR ''0'' then Inr (s\<lparr>step := St0, lit := lit s @ [c]\<rparr>)
      else if 49 \<le> byte c \<and> byte c \<le> 57 then Inr (s\<lparr>step := St1, lit := lit s @ [c]\<rparr>)
      else scan_error bytes c ''in numeric literal'')"

definition stateDot :: "scanner \<Rightarrow> nat \<Rightarrow> char \<Rightarrow> go_error + scanner" where
  "stateDot s bytes c =
     (if isDigit c then Inr (s\<lparr>step := Dot0, lit := lit s @ [c]\<rparr>)
      else scan_error bytes c ''after decimal point in numeric literal'')"

definition stateDot0 :: "scanner \<Rightarrow> nat \<Rightarrow> char \<Rightarrow> go_error + scanner" where
  "stateDot0 s bytes c =
     (if isDigit c then Inr (s\<lparr>lit := lit s @ [c]\<rparr>)
      else if c = CHR ''e'' \<or> c = CHR ''E'' then Inr (s\<lparr>step := StE, lit := lit s @ [c]\<rparr>)
      else stateEndValue (complete (JNumber (lit s)) s) bytes c)"

definition stateESign :: "scanner \<Rightarrow> nat \<Rightarrow> char \<Rightarrow> go_error + scanner" where
  "stateESign s bytes c =
     (if isDigit c then Inr (s\<lparr>step := E0, lit := lit s @ [c]\<rparr>)
      else scan_error bytes c ''in exponent of numeric literal'')"

definition stateE :: "scanner \<Rightarrow> nat \<Rightarrow> char \<Rightarrow> go_error + scanner" where
  "stateE s bytes c =
     (if c = CHR ''+'' \<or> c = CHR ''-'' then Inr (s\<lparr>step := ESign, lit := lit s @ [c]\<rparr>)
      else stateESign s bytes c)"

definition stateE0 :: "scanner \<Rightarrow> nat \<Rightarrow> char \<Rightarrow> go_error + scanner" where
  "stateE0 s bytes c =
     (if isDigit c then Inr (s\<lparr>lit := lit s @ [c]\<rparr>)
      else stateEndValue (complete (JNumber (lit s)) s) bytes c)"

text \<open>The ten states inside \<^verbatim>\<open>true\<close>, \<^verbatim>\<open>false\<close> and \<^verbatim>\<open>null\<close> differ in the byte they expect.\<close>

definition stateLiteral ::
  "char \<Rightarrow> string \<Rightarrow> (scanner \<Rightarrow> scanner) \<Rightarrow> scanner \<Rightarrow> nat \<Rightarrow> char \<Rightarrow> go_error + scanner" where
  "stateLiteral expected name next s bytes c =
     (if c = expected then Inr (next s)
      else scan_error bytes c
             (''in literal '' @ name @ '' (expecting '' @ [CHR 0x27, expected, CHR 0x27] @ '')''))"

definition goto :: "step \<Rightarrow> scanner \<Rightarrow> scanner" where
  "goto st s = s\<lparr>step := st\<rparr>"

definition scan_step :: "scanner \<Rightarrow> nat \<Rightarrow> char \<Rightarrow> go_error + scanner" where
  "scan_step s bytes c =
     (case step s of
        BeginValue \<Rightarrow> stateBeginValue s bytes c
      | BeginValueOrEmpty \<Rightarrow> stateBeginValueOrEmpty s bytes c
      | BeginStringOrEmpty \<Rightarrow> stateBeginStringOrEmpty s bytes c
      | BeginString \<Rightarrow> stateBeginString s bytes c
      | EndValue \<Rightarrow> stateEndValue s bytes c
      | EndTop \<Rightarrow> stateEndTop s bytes c
      | InString \<Rightarrow> stateInString s bytes c
      | InStringEsc \<Rightarrow> stateInStringEsc s bytes c
      | InStringEscU \<Rightarrow> stateInStringEscU InStringEscU1 s bytes c
      | InStringEscU1 \<Rightarrow> stateInStringEscU InStringEscU12 s bytes c
      | InStringEscU12 \<Rightarrow> stateInStringEscU InStringEscU123 s bytes c
      | InStringEscU123 \<Rightarrow> stateInStringEscU InString s bytes c
      | Neg \<Rightarrow> stateNeg s bytes c
      | St1 \<Rightarrow> state1 s bytes c
      | St0 \<Rightarrow> state0 s bytes c
      | Dot \<Rightarrow> stateDot s bytes c
      | Dot0 \<Rightarrow> stateDot0 s bytes c
      | StE \<Rightarrow> stateE s bytes c
      | ESign \<Rightarrow> stateESign s bytes c
      | E0 \<Rightarrow> stateE0 s bytes c
      | StT \<Rightarrow> stateLiteral (CHR ''r'') ''true'' (goto Tr) s bytes c
      | Tr \<Rightarrow> stateLiteral (CHR ''u'') ''true'' (goto Tru) s bytes c
      | Tru \<Rightarrow> stateLiteral (CHR ''e'') ''true'' (complete (JBool True)) s bytes c
      | StF \<Rightarrow> stateLiteral (CHR ''a'') ''false'' (goto Fa) s bytes c
      | Fa \<Rightarrow> stateLiteral (CHR ''l'') ''false'' (goto Fal) s bytes c
      | Fal \<Rightarrow> stateLiteral (CHR ''s'') ''false'' (goto Fals) s bytes c
      | Fals \<Rightarrow> stateLiteral (CHR ''e'') ''false'' (complete (JBool False)) s bytes c
      | StN \<Rightarrow> stateLiteral (CHR ''u'') ''null'' (goto Nu) s bytes c
      | Nu \<Rightarrow> stateLiteral (CHR ''l'') ''null'' (goto Nul) s bytes c
      | Nul \<Rightarrow> stateLiteral (CHR ''l'') ''null'' (complete JNull) s bytes c)"

text \<open>\<^verbatim>\<open>checkValid\<close>: every byte is counted, then stepped; the count is the error's offset.\<close>

fun scan_bytes :: "scanner \<Rightarrow> nat \<Rightarrow> string \<Rightarrow> go_error + scanner \<times> nat" where
  "scan_bytes s bytes [] = Inr (s, bytes)"
| "scan_bytes s bytes (c # cs) =
     (case scan_step s (Suc bytes) c of
        Inl err \<Rightarrow> Inl err
      | Inr s' \<Rightarrow> scan_bytes s' (Suc bytes) cs)"

text \<open>
  \<^verbatim>\<open>eof\<close>: unless the top-level value is already closed, the scanner is stepped with one
  space, which ends a number; the input was complete if that closed the top-level value.
\<close>

definition scan_eof :: "scanner \<Rightarrow> nat \<Rightarrow> go_error + json" where
  "scan_eof s bytes =
     (case (if step s = EndTop then Inr s else scan_step s bytes (CHR '' '')) of
        Inl err \<Rightarrow> Inl err
      | Inr s' \<Rightarrow>
          (case (step s', top s') of
             (EndTop, Some v) \<Rightarrow> Inr v
           | _ \<Rightarrow> Inl (SyntaxError ''unexpected end of JSON input'' bytes)))"

definition scan_reset :: scanner where
  "scan_reset = \<lparr>step = BeginValue, parseState = [], lit = [], top = None\<rparr>"

definition checkValid :: "string \<Rightarrow> go_error + json" where
  "checkValid data =
     (case scan_bytes scan_reset 0 data of
        Inl err \<Rightarrow> Inl err
      | Inr (s, bytes) \<Rightarrow> scan_eof s bytes)"

subsection \<open>Storing values into Go types\<close>

text \<open>
  The outcome of a codec function. \<open>Unmodelled\<close> marks the inputs on which what Go does is
  not fixed by the library's documented behaviour or differs between Go releases: an
  object that names the same struct field twice (the second value is decoded into the
  storage the first left behind, whose spare capacity shows through), and, when
  encoding, a string with a backspace or form-feed byte (written as \<^verbatim>\<open>\u0008\<close>, \<^verbatim>\<open>\u000c\<close>
  by older releases and as \<^verbatim>\<open>\b\<close>, \<^verbatim>\<open>\f\<close> by newer ones).
\<close>

datatype 'a outcome = Done 'a | Failed go_error | Unmodelled

fun and_then :: "'a outcome \<Rightarrow> ('a \<Rightarrow> 'b outcome) \<Rightarrow> 'b outcome" where
  "and_then (Done x) f = f x"
| "and_then (Failed e) f = Failed e"
| "and_then Unmodelled f = Unmodelled"

fun each :: "('a \<Rightarrow> 'b outcome) \<Rightarrow> 'a list \<Rightarrow> 'b list outcome" where
  "each f [] = Done []"
| "each f (x # xs) = and_then (f x) (\<lambda>y. and_then (each f xs) (\<lambda>ys. Done (y # ys)))"

definition of_sum :: "go_error + 'a \<Rightarrow> 'a outcome" where
  "of_sum r = (case r of Inl e \<Rightarrow> Failed e | Inr x \<Rightarrow> Done x)"

text \<open>
  What the library answers where the model has \<open>Unmodelled\<close> is a parameter \<open>rest\<close> of the
  codec functions below.
\<close>

definition or_else :: "'a outcome \<Rightarrow> (go_error + 'a) \<Rightarrow> go_error + 'a" where
  "or_else r rest = (case r of Done x \<Rightarrow> Inr x | Failed e \<Rightarrow> Inl e | Unmodelled \<Rightarrow> rest)"

text \<open>The \<^verbatim>\<open>Value\<close> of the \<^verbatim>\<open>UnmarshalTypeError\<close> for a JSON value that does not fit its target.\<close>

fun value_kind :: "json \<Rightarrow> string" where
  "value_kind JNull = ''null''"
| "value_kind (JBool _) = ''bool''"
| "value_kind (JNumber _) = ''number''"
| "value_kind (JString _) = ''string''"
| "value_kind (JArray _) = ''array''"
| "value_kind (JObject _) = ''object''"

text \<open>
  Every target below is fresh (zero): \<^verbatim>\<open>null\<close> leaves a string, a bool or an int as it
  is and makes a slice or a map nil.
\<close>

fun store_string :: "json \<Rightarrow> string outcome" where
  "store_string JNull = Done []"
| "store_string (JString s) = Done s"
| "store_string j = Failed (UnmarshalTypeError (value_kind j) ''string'')"

fun store_bool :: "json \<Rightarrow> bool outcome" where
  "store_bool JNull = Done False"
| "store_bool (JBool b) = Done b"
| "store_bool j = Failed (UnmarshalTypeError (value_kind j) ''bool'')"

text \<open>
  \<^verbatim>\<open>strconv.ParseInt(s, 10, 64)\<close>: an optional sign and decimal digits, within 64 bits. Go's
  \<^verbatim>\<open>int\<close> is taken to be 64 bits wide, as on every platform cgo and CPython share today.
\<close>

definition ParseInt :: "string \<Rightarrow> int option" where
  "ParseInt s =
     (let neg = (s \<noteq> [] \<and> hd s = CHR ''-'');
          ds = (if s \<noteq> [] \<and> (hd s = CHR ''-'' \<or> hd s = CHR ''+'') then tl s else s);
          n = foldl (\<lambda>a c. 10 * a + int (byte c - 48)) 0 ds;
          v = (if neg then - n else n)
      in if ds \<noteq> [] \<and> list_all isDigit ds \<and> - (2 ^ 63) \<le> v \<and> v < 2 ^ 63 then Some v else None)"

fun store_int :: "json \<Rightarrow> int outcome" where
  "store_int JNull = Done 0"
| "store_int (JNumber l) =
     (case ParseInt l of
        Some n \<Rightarrow> Done n
      | None \<Rightarrow> Failed (UnmarshalTypeError (''number '' @ l) ''int''))"
| "store_int j = Failed (UnmarshalTypeError (value_kind j) ''int'')"

text \<open>A slice: \<open>None\<close> is the nil slice, and \<^verbatim>\<open>[]\<close> gives an empty slice that is not nil.\<close>

fun store_slice :: "string \<Rightarrow> (json \<Rightarrow> 'a outcome) \<Rightarrow> json \<Rightarrow> 'a list option outcome" where
  "store_slice ty elem JNull = Done None"
| "store_slice ty elem (JArray xs) = and_then (each elem xs) (\<lambda>ys. Done (Some ys))"
| "store_slice ty elem j = Failed (UnmarshalTypeError (value_kind j) ty)"

text \<open>
  A Go map with string keys is represented by the list of its entries in increasing key
  order (the order of Go's string comparison, byte by byte); \<open>None\<close> is the nil map.
  \<open>map_put\<close> is the assignment \<^verbatim>\<open>m[k] = v\<close>.
\<close>

type_synonym 'a go_map = "(string \<times> 'a) list"

fun map_put :: "string \<Rightarrow> 'a \<Rightarrow> 'a go_map \<Rightarrow> 'a go_map" where
  "map_put k v [] = [(k, v)]"
| "map_put k v ((k', v') # m) =
     (if k = k' then (k, v) # m
      else if k < k' then (k, v) # (k', v') # m
      else (k', v') # map_put k v m)"

text \<open>
  Storing into a map: \<^verbatim>\<open>{}\<close> gives an empty map that is not nil; the members are assigned
  in their order, so of two equal keys the later one stays.
\<close>

fun store_map ::
  "string \<Rightarrow> (json \<Rightarrow> 'a outcome) \<Rightarrow> json \<Rightarrow> 'a go_map option outcome" where
  "store_map ty elem JNull = Done None"
| "store_map ty elem (JObject kvs) =
     and_then (each elem (map snd kvs))
       (\<lambda>vs. Done (Some (foldl (\<lambda>m kv. map_put (fst kv) (snd kv) m) [] (zip (map fst kvs) vs))))"
| "store_map ty elem j = Failed (UnmarshalTypeError (value_kind j) ty)"

subsection \<open>Struct fields\<close>

text \<open>
  A key names the field whose JSON name it equals, or else the first field whose name
  it equals under \<^verbatim>\<open>foldName\<close>: ASCII letters in upper case, and the two non-ASCII runes
  that fold to ASCII letters, U+017F to \<^verbatim>\<open>S\<close> and U+212A to \<^verbatim>\<open>K\<close>. Every other non-ASCII
  rune folds to a non-ASCII rune, which no field name here contains; it is left as it is.
\<close>

function foldName :: "string \<Rightarrow> string" where
  "foldName [] = []"
| "foldName (c # cs) =
     (if c = CHR 0xC5 \<and> take 1 cs = [CHR 0xBF] then CHR ''S'' # foldName (drop 1 cs)
      else if c = CHR 0xE2 \<and> take 2 cs = [CHR 0x84, CHR 0xAA] then CHR ''K'' # foldName (drop 2 cs)
      else (if 97 \<le> byte c \<and> byte c \<le> 122 then char_of (byte c - 32) else c) # foldName cs)"
  by pat_completeness auto
termination
  by (relation "measure length") auto

fun first_index :: "('a \<Rightarrow> bool) \<Rightarrow> 'a list \<Rightarrow> nat option" where
  "first_index P [] = None"
| "first_index P (x # xs) = (if P x then Some 0 else map_option Suc (first_index P xs))"

definition field_index :: "string list \<Rightarrow> string \<Rightarrow> nat option" where
  "field_index names key =
     (case first_index (\<lambda>n. n = key) names of
        Some i \<Rightarrow> Some i
      | None \<Rightarrow> first_index (\<lambda>n. foldName n = foldName key) names)"

text \<open>
  The members of an object are stored in their order; a key that names no field is
  skipped with its value. \<open>seen\<close> holds the fields already stored.
\<close>

fun store_fields ::
  "string list \<Rightarrow> (nat \<Rightarrow> json \<Rightarrow> 'r \<Rightarrow> 'r outcome) \<Rightarrow> nat list \<Rightarrow> (string \<times> json) list \<Rightarrow> 'r \<Rightarrow>
     'r outcome" where
  "store_fields names store seen [] r = Done r"
| "store_fields names store seen ((k, v) # kvs) r =
     (case field_index names k of
        None \<Rightarrow> store_fields names store seen kvs r
      | Some i \<Rightarrow>
          if i \<in> set seen then Unmodelled
          else and_then (store i v r) (store_fields names store (i # seen) kvs))"

fun store_struct ::
  "string \<Rightarrow> string list \<Rightarrow> (nat \<Rightarrow> json \<Rightarrow> 'r \<Rightarrow> 'r outcome) \<Rightarrow> 'r \<Rightarrow> json \<Rightarrow> 'r outcome" where
  "store_struct ty names store zero JNull = Done zero"
| "store_struct ty names store zero (JObject kvs) = store_fields names store [] kvs zero"
| "store_struct ty names store zero j = Failed (UnmarshalTypeError (value_kind j) ty)"

subsection \<open>The response of the render entry point\<close>

record RenderJinjaTemplateResponse =
  RenderedChats :: "string list option"
  GenerationIndices :: "int list option list option list option"

definition store_RenderJinjaTemplateResponse ::
  "nat \<Rightarrow> json \<Rightarrow> RenderJinjaTemplateResponse \<Rightarrow> RenderJinjaTemplateResponse outcome" where
  "store_RenderJinjaTemplateResponse i j r =
     (if i = 0 then
        and_then (store_slice ''[]string'' store_string j) (\<lambda>v. Done (r\<lparr>RenderedChats := v\<rparr>))
      else
        and_then (store_slice ''[][][]int'' (store_slice ''[][]int'' (store_slice ''[]int'' store_int)) j)
          (\<lambda>v. Done (r\<lparr>GenerationIndices := v\<rparr>)))"

text \<open>\<^verbatim>\<open>json.Unmarshal(data, &response)\<close> with \<^verbatim>\<open>var response RenderJinjaTemplateResponse\<close>.\<close>

definition Unmarshal_RenderJinjaTemplateResponse ::
  "string \<Rightarrow> RenderJinjaTemplateResponse outcome" where
  "Unmarshal_RenderJinjaTemplateResponse data =
     and_then (of_sum (checkValid data))
       (store_struct ''preprocessing.RenderJinjaTemplateResponse''
          [''rendered_chats'', ''generation_indices''] store_RenderJinjaTemplateResponse
          \<lparr>RenderedChats = None, GenerationIndices = None\<rparr>)"

definition json_Unmarshal_RenderJinjaTemplateResponse ::
  "(string \<Rightarrow> go_error + RenderJinjaTemplateResponse) \<Rightarrow> string \<Rightarrow>
     go_error + RenderJinjaTemplateResponse" where
  "json_Unmarshal_RenderJinjaTemplateResponse rest data =
     or_else (Unmarshal_RenderJinjaTemplateResponse data) (rest data)"

subsection \<open>The encoder of \<^verbatim>\<open>encoding/json\<close>\<close>

text \<open>
  \<^verbatim>\<open>json.Marshal\<close> writes a string between quotes with \<^verbatim>\<open>"\<close> and \<^verbatim>\<open>\\<close> behind a
  backslash, newline, carriage return and tab as \<^verbatim>\<open>\n\<close>, \<^verbatim>\<open>\r\<close>, \<^verbatim>\<open>\t\<close>, the other bytes
  below 0x20 and \<^verbatim>\<open><\<close>, \<^verbatim>\<open>>\<close>, \<^verbatim>\<open>&\<close> as a \<^verbatim>\<open>u00XX\<close> escape, the runes U+2028 and U+2029 as
  escapes too, and each byte that is not well-formed UTF-8 as the escape of U+FFFD.
\<close>

definition u_escape :: "string \<Rightarrow> string" where
  "u_escape hex4 = [CHR 0x5C, CHR ''u''] @ hex4"

function quote_body :: "string \<Rightarrow> string" where
  "quote_body [] = []"
| "quote_body (c # cs) =
     (let b = byte c in
      if b < 0x80 then
        (if c = CHR 0x22 \<or> c = CHR 0x5C then [CHR 0x5C, c]
         else if b = 0x0A then [CHR 0x5C, CHR ''n'']
         else if b = 0x0D then [CHR 0x5C, CHR ''r'']
         else if b = 0x09 then [CHR 0x5C, CHR ''t'']
         else if b < 0x20 \<or> c = CHR ''<'' \<or> c = CHR ''>'' \<or> c = CHR ''&''
           then u_escape [CHR ''0'', CHR ''0'', lowerhex (b div 16), lowerhex b]
         else [c]) @ quote_body cs
      else if utf8_width (c # cs) = 0 then u_escape ''fffd'' @ quote_body cs
      else if take 3 (c # cs) = [CHR 0xE2, CHR 0x80, CHR 0xA8] then u_escape ''2028'' @ quote_body (drop 2 cs)
      else if take 3 (c # cs) = [CHR 0xE2, CHR 0x80, CHR 0xA9] then u_escape ''2029'' @ quote_body (drop 2 cs)
      else take (utf8_width (c # cs)) (c # cs) @ quote_body (drop (utf8_width (c # cs) - 1) cs))"
  by pat_completeness auto
termination
  by (relation "measure length") auto

definition quote :: "string \<Rightarrow> string" where
  "quote s = [CHR 0x22] @ quote_body s @ [CHR 0x22]"

fun join :: "string list \<Rightarrow> string" where
  "join [] = []"
| "join [x] = x"
| "join (x # y # ys) = x @ '','' @ join (y # ys)"

fun json_encode :: "json \<Rightarrow> string" where
  "json_encode JNull = ''null''"
| "json_encode (JBool b) = (if b then ''true'' else ''false'')"
| "json_encode (JNumber l) = l"
| "json_encode (JString s) = quote s"
| "json_encode (JArray xs) = ''['' @ join (map json_encode xs) @ '']''"
| "json_encode (JObject kvs) =
     ''{'' @ join (map (\<lambda>kv. quote (fst kv) @ '':'' @ json_encode (snd kv)) kvs) @ ''}''"

text \<open>The strings whose encoding is the same in every Go release.\<close>

definition plain :: "string \<Rightarrow> bool" where
  "plain s = (CHR 0x08 \<notin> set s \<and> CHR 0x0C \<notin> set s)"

fun encodable :: "json \<Rightarrow> bool" where
  "encodable (JString s) = plain s"
| "encodable (JArray xs) = list_all encodable xs"
| "encodable (JObject kvs) = list_all (\<lambda>kv. plain (fst kv) \<and> encodable (snd kv)) kvs"
| "encodable _ = True"

definition encode :: "json outcome \<Rightarrow> string outcome" where
  "encode r = and_then r (\<lambda>j. if encodable j then Done (json_encode j) else Unmodelled)"

subsection \<open>The request of the render entry point\<close>

text \<open>
  \<open>'v\<close> is the type of the opaque values (\<^verbatim>\<open>interface{}\<close>) in \<^verbatim>\<open>tools\<close>, \<^verbatim>\<open>documents\<close> and
  \<^verbatim>\<open>chat_template_kwargs\<close>. How the library encodes and decodes one is a parameter:
  \<open>any_json\<close>, which fails on a value \<^verbatim>\<open>json.Marshal\<close> does not support, and \<open>any_value\<close>.
\<close>

record ChatMessage =
  Role :: string
  Content :: string

record 'v RenderJinjaTemplateRequest =
  Conversations :: "ChatMessage list option"
  Tools :: "'v list option"
  Documents :: "'v list option"
  ChatTemplate :: string
  ReturnAssistantTokensMask :: bool
  ContinueFinalMessage :: bool
  AddGenerationPrompt :: bool
  ChatTemplateKWArgs :: "'v go_map option"

definition json_ChatMessage :: "ChatMessage \<Rightarrow> json" where
  "json_ChatMessage m = JObject [(''role'', JString (Role m)), (''content'', JString (Content m))]"

text \<open>
  A field tagged \<^verbatim>\<open>omitempty\<close> is left out when it is empty: a false bool, an empty string,
  a slice or map that is nil or has no element.
\<close>

definition omitempty_string :: "string \<Rightarrow> string \<Rightarrow> (string \<times> json) list outcome" where
  "omitempty_string name s = Done (if s = [] then [] else [(name, JString s)])"

definition omitempty_bool :: "string \<Rightarrow> bool \<Rightarrow> (string \<times> json) list outcome" where
  "omitempty_bool name b = Done (if b then [(name, JBool True)] else [])"

definition omitempty_slice ::
  "('v \<Rightarrow> go_error + json) \<Rightarrow> string \<Rightarrow> 'v list option \<Rightarrow> (string \<times> json) list outcome" where
  "omitempty_slice any_json name xs =
     (case xs of
        None \<Rightarrow> Done []
      | Some ys \<Rightarrow>
          if ys = [] then Done []
          else and_then (each (\<lambda>y. of_sum (any_json y)) ys) (\<lambda>js. Done [(name, JArray js)]))"

text \<open>The entries of a map are written in the sorted order of their keys.\<close>

definition omitempty_map ::
  "('v \<Rightarrow> go_error + json) \<Rightarrow> string \<Rightarrow> 'v go_map option \<Rightarrow> (string \<times> json) list outcome" where
  "omitempty_map any_json name m =
     (case m of
        None \<Rightarrow> Done []
      | Some kvs \<Rightarrow>
          if kvs = [] then Done []
          else and_then
                 (each (\<lambda>kv. and_then (of_sum (any_json (snd kv))) (\<lambda>j. Done (fst kv, j)))
                    (sort_key fst kvs))
                 (\<lambda>members. Done [(name, JObject members)]))"

definition json_RenderJinjaTemplateRequest ::
  "('v \<Rightarrow> go_error + json) \<Rightarrow> 'v RenderJinjaTemplateRequest \<Rightarrow> json outcome" where
  "json_RenderJinjaTemplateRequest any_json r =
     and_then
       (each id
          [Done [(''messages'',
                  (case Conversations r of
                     None \<Rightarrow> JNull
                   | Some ms \<Rightarrow> JArray (map json_ChatMessage ms)))],
           omitempty_slice any_json ''tools'' (Tools r),
           omitempty_slice any_json ''documents'' (Documents r),
           omitempty_string ''chat_template'' (ChatTemplate r),
           omitempty_bool ''return_assistant_tokens_mask'' (ReturnAssistantTokensMask r),
           omitempty_bool ''continue_final_message'' (ContinueFinalMessage r),
           omitempty_bool ''add_generation_prompt'' (AddGenerationPrompt r),
           omitempty_map any_json ''chat_template_kwargs'' (ChatTemplateKWArgs r)])
       (\<lambda>members. Done (JObject (concat members)))"

text \<open>\<^verbatim>\<open>json.Marshal(req)\<close> for a request pointer that is not nil.\<close>

definition json_Marshal_RenderJinjaTemplateRequest ::
  "('v \<Rightarrow> go_error + json) \<Rightarrow> ('v RenderJinjaTemplateRequest \<Rightarrow> go_error + string) \<Rightarrow>
     'v RenderJinjaTemplateRequest \<Rightarrow> go_error + string" where
  "json_Marshal_RenderJinjaTemplateRequest any_json rest r =
     or_else (encode (json_RenderJinjaTemplateRequest any_json r)) (rest r)"

definition store_ChatMessage :: "nat \<Rightarrow> json \<Rightarrow> ChatMessage \<Rightarrow> ChatMessage outcome" where
  "store_ChatMessage i j m =
     (if i = 0 then and_then (store_string j) (\<lambda>v. Done (m\<lparr>Role := v\<rparr>))
      else and_then (store_string j) (\<lambda>v. Done (m\<lparr>Content := v\<rparr>)))"

definition zero_RenderJinjaTemplateRequest :: "'v RenderJinjaTemplateRequest" where
  "zero_RenderJinjaTemplateRequest =
     \<lparr>Conversations = None, Tools = None, Documents = None, ChatTemplate = [],
      ReturnAssistantTokensMask = False, ContinueFinalMessage = False,
      AddGenerationPrompt = False, ChatTemplateKWArgs = None\<rparr>"

definition store_RenderJinjaTemplateRequest ::
  "(json \<Rightarrow> go_error + 'v) \<Rightarrow> nat \<Rightarrow> json \<Rightarrow> 'v RenderJinjaTemplateRequest \<Rightarrow>
     'v RenderJinjaTemplateRequest outcome" where
  "store_RenderJinjaTemplateRequest any_value i j r =
     (if i = 0 then
        and_then
          (store_slice ''[]preprocessing.ChatMessage''
             (store_struct ''preprocessing.ChatMessage'' [''role'', ''content''] store_ChatMessage
                \<lparr>Role = [], Content = []\<rparr>) j)
          (\<lambda>v. Done (r\<lparr>Conversations := v\<rparr>))
      else if i = 1 then
        and_then (store_slice ''[]interface {}'' (\<lambda>x. of_sum (any_value x)) j)
          (\<lambda>v. Done (r\<lparr>Tools := v\<rparr>))
      else if i = 2 then
        and_then (store_slice ''[]interface {}'' (\<lambda>x. of_sum (any_value x)) j)
          (\<lambda>v. Done (r\<lparr>Documents := v\<rparr>))
      else if i = 3 then and_then (store_string j) (\<lambda>v. Done (r\<lparr>ChatTemplate := v\<rparr>))
      else if i = 4 then and_then (store_bool j) (\<lambda>v. Done (r\<lparr>ReturnAssistantTokensMask := v\<rparr>))
      else if i = 5 then and_then (store_bool j) (\<lambda>v. Done (r\<lparr>ContinueFinalMessage := v\<rparr>))
      else if i = 6 then and_then (store_bool j) (\<lambda>v. Done (r\<lparr>AddGenerationPrompt := v\<rparr>))
      else
        and_then (store_map ''map[string]interface {}'' (\<lambda>x. of_sum (any_value x)) j)
          (\<lambda>v. Done (r\<lparr>ChatTemplateKWArgs := v\<rparr>)))"

definition Unmarshal_RenderJinjaTemplateRequest ::
  "(json \<Rightarrow> go_error + 'v) \<Rightarrow> string \<Rightarrow> 'v RenderJinjaTemplateRequest outcome" where
  "Unmarshal_RenderJinjaTemplateRequest any_value data =
     and_then (of_sum (checkValid data))
       (store_struct ''preprocessing.RenderJinjaTemplateRequest''
          [''messages'', ''tools'', ''documents'', ''chat_template'',
           ''return_assistant_tokens_mask'', ''continue_final_message'',
           ''add_generation_prompt'', ''chat_template_kwargs'']
          (store_RenderJinjaTemplateRequest any_value) zero_RenderJinjaTemplateRequest)"

text \<open>
  \<^verbatim>\<open>DeepCopy\<close>. The receiver is a pointer; \<^verbatim>\<open>json.Marshal\<close> of a nil pointer is \<^verbatim>\<open>null\<close>. The
  copy is built by \<^verbatim>\<open>json.Unmarshal\<close> from the bytes alone.
\<close>

definition DeepCopy ::
  "('v \<Rightarrow> go_error + json) \<Rightarrow> (json \<Rightarrow> go_error + 'v) \<Rightarrow> 'v RenderJinjaTemplateRequest option \<Rightarrow>
     ('v RenderJinjaTemplateRequest option \<times> go_error option) outcome" where
  "DeepCopy any_json any_value req =
     (case (case req of
              None \<Rightarrow> Done ''null''
            | Some r \<Rightarrow> encode (json_RenderJinjaTemplateRequest any_json r)) of
        Unmodelled \<Rightarrow> Unmodelled
      | Failed err \<Rightarrow> Done (None, Some err)
      | Done b \<Rightarrow>
          (case Unmarshal_RenderJinjaTemplateRequest any_value b of
             Unmodelled \<Rightarrow> Unmodelled
           | Failed err \<Rightarrow> Done (None, Some err)
           | Done out \<Rightarrow> Done (Some out, None)))"

subsection \<open>The request and the response of the fetch entry point\<close>






subsection \<open>The status the module-init entry point reports\<close>

text \<open>
  What the module-init entry point reports in a call of \<^verbatim>\<open>Initialize\<close> that starts in world
  \<open>w0\<close>: the history then holds the opening log lines and the start of the interpreter.
\<close>

definition init_status :: "runtime \<Rightarrow> world \<Rightarrow> int" where
  "init_status rt w0 =
     InitChatTemplateModule_status rt
       (trace (emit Py_InitializeGo
          (printMemStats rt ''Before Python Initialize''
             (emit (Info DEBUG ''Initialize'' ''Initializing Python interpreter'' []) w0))))"

subsection \<open>A fake C side\<close>

text \<open>
  The spec tests the component against a fake foreign runtime. This one reports a fixed
  status from module-init and gives a fixed answer, a buffer or the null pointer, from
  the render, fetch and cache-clear entry points; the memory statistics are all zero.
\<close>

definition zero_stats :: MemStats where
  "zero_stats = \<lparr>Alloc = 0, TotalAlloc = 0, Sys = 0, NumGC = 0\<rparr>"

definition fake_runtime :: "int \<Rightarrow> string option \<Rightarrow> runtime" where
  "fake_runtime status answer =
     \<lparr>ReadMemStats = (\<lambda>h. zero_stats),
      InitChatTemplateModule_status = (\<lambda>h. status),
      RenderJinjaTemplate_result = (\<lambda>h req. answer),
      GetModelChatTemplate_result = (\<lambda>h req. answer),
      ClearCaches_result = (\<lambda>h. answer)\<rparr>"

text \<open>The world of a process that has called nothing yet.\<close>

definition world0 :: world where
  "world0 = \<lparr>trace = [], heap = Map.empty, next_ptr = 1\<rparr>"

text \<open>
  In the examples the opaque values are JSON trees, encoded and decoded as themselves,
  and the library answers with an error where the model has \<open>Unmodelled\<close>.
\<close>

definition outside :: "'a \<Rightarrow> go_error + 'b" where
  "outside x = Inl (Errorf ''outside the model'')"

definition Marshal_example :: "json RenderJinjaTemplateRequest \<Rightarrow> go_error + string" where
  "Marshal_example = json_Marshal_RenderJinjaTemplateRequest Inr outside"

definition Unmarshal_example :: "string \<Rightarrow> go_error + RenderJinjaTemplateResponse" where
  "Unmarshal_example = json_Unmarshal_RenderJinjaTemplateResponse outside"

text \<open>The request and the answer of the scenario in the spec's section 8.\<close>

definition hi_request :: "json RenderJinjaTemplateRequest" where
  "hi_request = zero_RenderJinjaTemplateRequest\<lparr>Conversations := Some [\<lparr>Role = ''user'', Content = ''hi''\<rparr>]\<rparr>"

definition HI_result :: string where
  "HI_result =
     ''{'' @ quote ''rendered_chats'' @ '':['' @ quote ''HI'' @ ''],'' @
       quote ''generation_indices'' @ '':[]}''"

definition hi_JSON :: string where
  "hi_JSON =
     ''{'' @ quote ''messages'' @ '':[{'' @ quote ''role'' @ '':'' @ quote ''user'' @ '','' @
       quote ''content'' @ '':'' @ quote ''hi'' @ ''}]}''"

text \<open>The world after \<^verbatim>\<open>Initialize\<close> and \<^verbatim>\<open>Finalize\<close> have both run.\<close>

definition finalized_world :: world where
  "finalized_world = Finalize (fake_runtime 0 None) (snd (Initialize (fake_runtime 0 None) world0))"

text \<open>
  A request that asks for the assistant-token mask, and an answer with one rendered chat
  but two groups of generation indices.
\<close>

definition masked_request :: "json RenderJinjaTemplateRequest" where
  "masked_request = hi_request\<lparr>ReturnAssistantTokensMask := True\<rparr>"

definition mismatched_result :: string where
  "mismatched_result =
     ''{'' @ quote ''rendered_chats'' @ '':['' @ quote ''HI'' @ ''],'' @
       quote ''generation_indices'' @ '':[[[0,1]],[[2,3]]]}''"

definition without_indices_result :: string where
  "without_indices_result = ''{'' @ quote ''rendered_chats'' @ '':['' @ quote ''HI'' @ '']}''"

definition masked_JSON :: string where
  "masked_JSON =
     ''{'' @ quote ''messages'' @ '':[{'' @ quote ''role'' @ '':'' @ quote ''user'' @ '','' @
       quote ''content'' @ '':'' @ quote ''hi'' @ ''}],'' @
       quote ''return_assistant_tokens_mask'' @ '':true}''"









section \<open>Properties\<close>

subsection \<open>Basic facts about the world\<close>

lemma trace_emit [simp]: "trace (emit e w) = trace w @ [e]"
  by (simp add: emit_def)

lemma heap_emit [simp]: "heap (emit e w) = heap w"
  by (simp add: emit_def)

lemma next_ptr_emit [simp]: "next_ptr (emit e w) = next_ptr w"
  by (simp add: emit_def)

lemma is_boundary_call_stats_line [simp]: "\<not> is_boundary_call (stats_line l m)"
  by (simp add: stats_line_def)

lemma allocated_stats_line [simp]: "allocated (stats_line l m) = []"
  by (simp add: stats_line_def)

lemma freed_stats_line [simp]: "freed (stats_line l m) = []"
  by (simp add: stats_line_def)

lemma track_stats_line [simp]: "track live (stats_line l m # es) = track live es"
  by (simp add: stats_line_def)

lemma stats_line_neq [simp]:
  "stats_line l m \<noteq> Py_FinalizeGo" "stats_line l m \<noteq> Py_InitializeGo"
  "(stats_line l m = Info DEBUG n msg kv) = False"
  by (simp_all add: stats_line_def)

lemma trace_printMemStats [simp]:
  "trace (printMemStats rt l w) = trace w @ [stats_line l (ReadMemStats rt (trace w))]"
  by (simp add: printMemStats_def Let_def)

lemma heap_printMemStats [simp]: "heap (printMemStats rt l w) = heap w"
  by (simp add: printMemStats_def Let_def)

lemma next_ptr_printMemStats [simp]: "next_ptr (printMemStats rt l w) = next_ptr w"
  by (simp add: printMemStats_def Let_def)

lemma new_events_app: "trace w' = trace w @ es \<Longrightarrow> new_events w w' = es"
  by (simp add: new_events_def)

lemma allocs_simps [simp]:
  "allocs [] = []"
  "allocs (e # es) = allocated e @ allocs es"
  "allocs (es @ fs) = allocs es @ allocs fs"
  by (simp_all add: allocs_def)

lemma frees_simps [simp]:
  "frees [] = []"
  "frees (e # es) = freed e @ frees es"
  "frees (es @ fs) = frees es @ frees fs"
  by (simp_all add: frees_def)

text \<open>Every operation only appends to the trace; \<open>hygienic\<close> is buffer hygiene of what it appended.\<close>

lemma hygienic_intro:
  assumes "trace w' = trace w @ es" "track [] es = Some []" "length (allocs es) = length (frees es)"
  shows "track [] (new_events w w') = Some [] \<and>
         length (allocs (new_events w w')) = length (frees (new_events w w'))"
  using assms by (simp add: new_events_app)

subsection \<open>Buffer hygiene\<close>

lemma RenderChatTemplate_hygienic:
  "track [] (new_events w (snd (RenderChatTemplate M U rt req w))) = Some [] \<and>
   length (allocs (new_events w (snd (RenderChatTemplate M U rt req w)))) =
   length (frees (new_events w (snd (RenderChatTemplate M U rt req w))))"
  apply (rule hygienic_intro
      [where es = "drop (length (trace w)) (trace (snd (RenderChatTemplate M U rt req w)))"])
  by (auto simp: RenderChatTemplate_def Let_def C_CString_def C_Py_CallRenderJinjaTemplate_def
      foreign_return_def free_request_def free_result_def C_free_def
      split: option.splits sum.splits prod.splits)

lemma FetchChatTemplate_hygienic:
  "track [] (new_events w (snd (FetchChatTemplate M U rt req w))) = Some [] \<and>
   length (allocs (new_events w (snd (FetchChatTemplate M U rt req w)))) =
   length (frees (new_events w (snd (FetchChatTemplate M U rt req w))))"
  apply (rule hygienic_intro
      [where es = "drop (length (trace w)) (trace (snd (FetchChatTemplate M U rt req w)))"])
  by (auto simp: FetchChatTemplate_def Let_def C_CString_def C_Py_CallGetModelChatTemplate_def
      foreign_return_def free_request_def free_result_def C_free_def
      split: option.splits sum.splits prod.splits)

lemma ClearCaches_hygienic:
  "track [] (new_events w (snd (ClearCaches rt w))) = Some [] \<and>
   length (allocs (new_events w (snd (ClearCaches rt w)))) =
   length (frees (new_events w (snd (ClearCaches rt w))))"
  apply (rule hygienic_intro
      [where es = "drop (length (trace w)) (trace (snd (ClearCaches rt w)))"])
  by (auto simp: ClearCaches_def Let_def C_Py_ClearCaches_def foreign_return_def C_free_def
      split: option.splits sum.splits prod.splits)

text \<open>
  Claim C2. In every call of \<^verbatim>\<open>RenderChatTemplate\<close>, \<^verbatim>\<open>FetchChatTemplate\<close> and
  \<^verbatim>\<open>ClearCaches\<close>, whatever the request, the serializer, the deserializer and the answers
  of the C side are (so on the success path, on a null answer and on a decoding failure
  alike), the events of the call allocate and free buffers so that: no buffer is freed
  unless it is live, none is allocated twice, none of them is live when the call returns,
  and the call makes as many frees as allocations. Each buffer of the call, the C string
  of the request and the result buffer of the C side, is thus released exactly once before
  the call returns.
\<close>

theorem C2_buffers_released_exactly_once:
  "(track [] (new_events w (snd (RenderChatTemplate M U rt req w))) = Some [] \<and>
    length (allocs (new_events w (snd (RenderChatTemplate M U rt req w)))) =
    length (frees (new_events w (snd (RenderChatTemplate M U rt req w))))) \<and>
   (track [] (new_events w (snd (FetchChatTemplate M' U' rt freq w))) = Some [] \<and>
    length (allocs (new_events w (snd (FetchChatTemplate M' U' rt freq w)))) =
    length (frees (new_events w (snd (FetchChatTemplate M' U' rt freq w))))) \<and>
   (track [] (new_events w (snd (ClearCaches rt w))) = Some [] \<and>
    length (allocs (new_events w (snd (ClearCaches rt w)))) =
    length (frees (new_events w (snd (ClearCaches rt w)))))"
  using RenderChatTemplate_hygienic [of w M U rt req]
    FetchChatTemplate_hygienic [of w M' U' rt freq] ClearCaches_hygienic [of w rt]
  by blast

subsection \<open>The nil request\<close>

lemma RenderChatTemplate_nil_trace:
  "trace (snd (RenderChatTemplate M U rt None w)) =
     trace w @
       [Info DEBUG ''RenderChatTemplate'' ''RenderChatTemplate called'' [],
        stats_line ''Before RenderChatTemplate''
          (ReadMemStats rt
             (trace w @ [Info DEBUG ''RenderChatTemplate'' ''RenderChatTemplate called'' []])),
        Error DEBUG ''RenderChatTemplate'' None ''Received nil request'']"
  by (simp add: RenderChatTemplate_def Let_def)

text \<open>
  Claim C7. A nil request makes \<^verbatim>\<open>RenderChatTemplate\<close> return a nil response and the
  error \<^verbatim>\<open>received nil request\<close> (the spec's \<open>InvalidInput\<close>). This happens before any
  serialization: the whole outcome, world included, is the same whatever the serializer
  and the deserializer are. The call makes no boundary call, allocates no buffer and
  leaves the buffers as they were.
\<close>

theorem C7_nil_request_rejected:
  "fst (RenderChatTemplate M U rt None w) = (None, Some (Errorf ''received nil request'')) \<and>
   snd (RenderChatTemplate M U rt None w) = snd (RenderChatTemplate M' U' rt None w) \<and>
   filter is_boundary_call (new_events w (snd (RenderChatTemplate M U rt None w))) = [] \<and>
   allocs (new_events w (snd (RenderChatTemplate M U rt None w))) = [] \<and>
   heap (snd (RenderChatTemplate M U rt None w)) = heap w"
proof -
  have "fst (RenderChatTemplate M U rt None w) = (None, Some (Errorf ''received nil request''))"
    by (simp add: RenderChatTemplate_def Let_def)
  moreover have "snd (RenderChatTemplate M U rt None w) = snd (RenderChatTemplate M' U' rt None w)"
    by (simp add: RenderChatTemplate_def Let_def)
  moreover have "filter is_boundary_call (new_events w (snd (RenderChatTemplate M U rt None w))) = []"
    by (simp add: new_events_app [OF RenderChatTemplate_nil_trace])
  moreover have "allocs (new_events w (snd (RenderChatTemplate M U rt None w))) = []"
    by (simp add: new_events_app [OF RenderChatTemplate_nil_trace])
  moreover have "heap (snd (RenderChatTemplate M U rt None w)) = heap w"
    by (simp add: RenderChatTemplate_def Let_def)
  ultimately show ?thesis by blast
qed

subsection \<open>The paths of \<^verbatim>\<open>RenderChatTemplate\<close>\<close>

lemmas render_unfold =
  RenderChatTemplate_def Let_def C_CString_def C_Py_CallRenderJinjaTemplate_def
  foreign_return_def free_request_def free_result_def C_free_def render_answer_def
  deref_def C_GoString_def new_events_def

lemma render_marshal_fails:
  assumes "M r = Inl e"
  shows "fst (RenderChatTemplate M U rt (Some r) w) =
           (None, Some (ErrorfW ''failed to marshal request: '' e))"
    and "filter is_boundary_call (new_events w (snd (RenderChatTemplate M U rt (Some r) w))) = []"
  using assms by (simp_all add: render_unfold)

lemma render_null:
  assumes "M r = Inr j" "render_answer rt j w = None"
  shows "fst (RenderChatTemplate M U rt (Some r) w) =
           (None, Some (Errorf ''python render_jinja_template failed''))"
    and "filter is_boundary_call (new_events w (snd (RenderChatTemplate M U rt (Some r) w))) =
           [Py_CallRenderJinjaTemplate (next_ptr w)]"
  using assms by (simp_all add: render_unfold)

lemma render_decode_fails:
  assumes "M r = Inr j" "render_answer rt j w = Some res" "U (c_str res) = Inl e"
  shows "fst (RenderChatTemplate M U rt (Some r) w) =
           (None, Some (ErrorfW ''failed to unmarshal response: '' e))"
    and "filter is_boundary_call (new_events w (snd (RenderChatTemplate M U rt (Some r) w))) =
           [Py_CallRenderJinjaTemplate (next_ptr w)]"
    and "Info DEBUG ''RenderChatTemplate'' ''Received JSON from Python''
             [(''length'', length (c_str res))]
           \<in> set (new_events w (snd (RenderChatTemplate M U rt (Some r) w)))"
  using assms by (simp_all add: render_unfold)

lemma render_ok:
  assumes "M r = Inr j" "render_answer rt j w = Some res" "U (c_str res) = Inr resp"
  shows "fst (RenderChatTemplate M U rt (Some r) w) = (Some resp, None)"
    and "filter is_boundary_call (new_events w (snd (RenderChatTemplate M U rt (Some r) w))) =
           [Py_CallRenderJinjaTemplate (next_ptr w)]"
  using assms by (simp_all add: render_unfold)

lemma render_result:
  assumes "M r = Inr j"
  shows "fst (RenderChatTemplate M U rt (Some r) w) =
     (case render_answer rt j w of
        None \<Rightarrow> (None, Some (Errorf ''python render_jinja_template failed''))
      | Some res \<Rightarrow>
          (case U (c_str res) of
             Inl e \<Rightarrow> (None, Some (ErrorfW ''failed to unmarshal response: '' e))
           | Inr resp \<Rightarrow> (Some resp, None)))"
proof (cases "render_answer rt j w")
  case None
  then show ?thesis
    using render_null(1) [where M=M and r=r and U=U and rt=rt and w=w, OF assms None] by simp
next
  case (Some res)
  then show ?thesis
    using render_decode_fails(1) [where M=M and r=r and U=U and rt=rt and w=w, OF assms Some]
      render_ok(1) [where M=M and r=r and U=U and rt=rt and w=w, OF assms Some]
    by (cases "U (c_str res)") simp_all
qed

lemma render_boundary_calls:
  assumes "M r = Inr j"
  shows "filter is_boundary_call (new_events w (snd (RenderChatTemplate M U rt (Some r) w))) =
           [Py_CallRenderJinjaTemplate (next_ptr w)]"
proof (cases "render_answer rt j w")
  case None
  then show ?thesis
    using render_null(2) [where M=M and r=r and U=U and rt=rt and w=w, OF assms None] by simp
next
  case (Some res)
  then show ?thesis
    using render_decode_fails(2) [where M=M and r=r and U=U and rt=rt and w=w, OF assms Some]
      render_ok(2) [where M=M and r=r and U=U and rt=rt and w=w, OF assms Some]
    by (cases "U (c_str res)") simp_all
qed

lemma render_error_no_response:
  assumes "snd (fst (RenderChatTemplate M U rt req w)) \<noteq> None"
  shows "fst (fst (RenderChatTemplate M U rt req w)) = None"
proof (cases req)
  case None
  then show ?thesis by (simp add: RenderChatTemplate_def Let_def)
next
  case (Some r)
  show ?thesis
  proof (cases "M r")
    case (Inl e)
    then show ?thesis
      using render_marshal_fails(1) [where M=M and r=r and U=U and rt=rt and w=w, OF Inl] Some
      by simp
  next
    case (Inr j)
    then show ?thesis
      using assms
      unfolding Some render_result [where M=M and r=r and U=U and rt=rt and w=w, OF Inr]
      by (simp split: option.splits sum.splits)
  qed
qed

subsection \<open>The examples, evaluated\<close>

lemma Marshal_hi_request: "Marshal_example hi_request = Inr hi_JSON"
  by code_simp

lemma Unmarshal_HI_result:
  "Unmarshal_example (c_str HI_result) =
     Inr \<lparr>RenderedChats = Some [''HI''], GenerationIndices = Some []\<rparr>"
  by code_simp

lemma render_answer_fake [simp]: "render_answer (fake_runtime status answer) j w = answer"
  by (simp add: render_answer_def fake_runtime_def)

lemma init_status_fake [simp]: "init_status (fake_runtime status answer) w = status"
  by (simp add: init_status_def fake_runtime_def)

lemma next_ptr_world0 [simp]: "next_ptr world0 = 1"
  by (simp add: world0_def)

lemma trace_world0 [simp]: "trace world0 = []"
  by (simp add: world0_def)

subsection \<open>The lifecycle\<close>

text \<open>
  Claim C1 as stated fails: \<^verbatim>\<open>ChatTemplatingProcessor\<close> is an empty struct and no operation
  reads a lifecycle state. In a process that never called \<^verbatim>\<open>Initialize\<close>, and likewise
  after \<^verbatim>\<open>Finalize\<close> has run, \<^verbatim>\<open>RenderChatTemplate\<close> on the request of the spec's scenario
  calls the render entry point and returns what the fake C side answers, with no error.
\<close>

theorem C1_counterexample:
  "\<not> interpreter_started (trace world0) \<and>
   fst (RenderChatTemplate Marshal_example Unmarshal_example (fake_runtime 0 (Some HI_result))
          (Some hi_request) world0) =
     (Some \<lparr>RenderedChats = Some [''HI''], GenerationIndices = Some []\<rparr>, None) \<and>
   filter is_boundary_call
     (new_events world0
        (snd (RenderChatTemplate Marshal_example Unmarshal_example (fake_runtime 0 (Some HI_result))
                (Some hi_request) world0))) =
     [Py_CallRenderJinjaTemplate 1] \<and>
   interpreter_stopped (trace finalized_world) \<and>
   fst (RenderChatTemplate Marshal_example Unmarshal_example (fake_runtime 0 (Some HI_result))
          (Some hi_request) finalized_world) =
     (Some \<lparr>RenderedChats = Some [''HI''], GenerationIndices = Some []\<rparr>, None) \<and>
   filter is_boundary_call
     (new_events finalized_world
        (snd (RenderChatTemplate Marshal_example Unmarshal_example (fake_runtime 0 (Some HI_result))
                (Some hi_request) finalized_world))) =
     [Py_CallRenderJinjaTemplate (next_ptr finalized_world)]"
proof -
  have "\<not> interpreter_started (trace world0)"
    by (simp add: interpreter_started_def)
  moreover have "interpreter_stopped (trace finalized_world)"
    by (simp add: interpreter_stopped_def finalized_world_def Finalize_def Let_def)
  moreover have "render_answer (fake_runtime 0 (Some HI_result)) hi_JSON w = Some HI_result" for w
    by simp
  ultimately show ?thesis
    using render_ok [where M=Marshal_example and U=Unmarshal_example and r=hi_request
        and rt="fake_runtime 0 (Some HI_result)", OF Marshal_hi_request _ Unmarshal_HI_result]
    by simp
qed

text \<open>
  Claim C1, amended. \<^verbatim>\<open>RenderChatTemplate\<close> has no lifecycle guard and no \<open>NotInitialized\<close>
  error. In every world, whatever \<^verbatim>\<open>Initialize\<close> and \<^verbatim>\<open>Finalize\<close> calls its trace holds: a
  request that fails to serialize is answered with that error and no boundary call; any
  other request that is not nil makes exactly one boundary call, of the render entry
  point, and the outcome is decided by what that call answers: null gives the error
  \<^verbatim>\<open>python render_jinja_template failed\<close>, a buffer gives what \<^verbatim>\<open>json.Unmarshal\<close> makes of it.
\<close>

theorem C1_no_lifecycle_guard:
  "(M r = Inl e \<longrightarrow>
      fst (RenderChatTemplate M U rt (Some r) w) =
        (None, Some (ErrorfW ''failed to marshal request: '' e)) \<and>
      filter is_boundary_call (new_events w (snd (RenderChatTemplate M U rt (Some r) w))) = []) \<and>
   (M r = Inr j \<longrightarrow>
      fst (RenderChatTemplate M U rt (Some r) w) =
        (case render_answer rt j w of
           None \<Rightarrow> (None, Some (Errorf ''python render_jinja_template failed''))
         | Some res \<Rightarrow>
             (case U (c_str res) of
                Inl e \<Rightarrow> (None, Some (ErrorfW ''failed to unmarshal response: '' e))
              | Inr resp \<Rightarrow> (Some resp, None))) \<and>
      filter is_boundary_call (new_events w (snd (RenderChatTemplate M U rt (Some r) w))) =
        [Py_CallRenderJinjaTemplate (next_ptr w)])"
  using render_marshal_fails [where M=M and r=r and U=U and rt=rt and w=w and e=e]
    render_result [where M=M and r=r and U=U and rt=rt and w=w and j=j]
    render_boundary_calls [where M=M and r=r and U=U and rt=rt and w=w and j=j]
  by blast

theorem C1_no_lifecycle_guard_witness:
  "Marshal_example hi_request = Inr hi_JSON \<and>
   \<not> interpreter_started (trace world0) \<and>
   fst (RenderChatTemplate Marshal_example Unmarshal_example (fake_runtime 0 None)
          (Some hi_request) world0) =
     (None, Some (Errorf ''python render_jinja_template failed'')) \<and>
   filter is_boundary_call
     (new_events world0
        (snd (RenderChatTemplate Marshal_example Unmarshal_example (fake_runtime 0 None)
                (Some hi_request) world0))) =
     [Py_CallRenderJinjaTemplate 1]"
  using C1_no_lifecycle_guard [where M=Marshal_example and U=Unmarshal_example and r=hi_request
      and rt="fake_runtime 0 None" and w=world0 and j=hi_JSON]
    Marshal_hi_request
  by (simp add: interpreter_started_def)

lemma Initialize_fails:
  assumes "init_status rt w \<noteq> 0"
  shows "fst (Initialize rt w) = Some (Errorf ''failed to initialize chat template module'')"
    and "filter is_boundary_call (new_events w (snd (Initialize rt w))) =
           [Py_InitializeGo, Py_InitChatTemplateModule]"
  using assms by (simp_all add: Initialize_def init_status_def Let_def new_events_def)

lemma Finalize_boundary_calls:
  "filter is_boundary_call (new_events w (Finalize rt w)) =
     [Py_CleanupChatTemplateModule, Py_FinalizeGo]"
  by (simp add: Finalize_def Let_def new_events_def)

text \<open>
  Claim C6. When the module-init entry point reports a status other than zero,
  \<^verbatim>\<open>Initialize\<close> returns the error \<^verbatim>\<open>failed to initialize chat template module\<close> (the spec's
  \<open>ModuleInitError\<close>). Its boundary calls are the start of the interpreter and the
  module-init call, in this order, and nothing else: the interpreter-stop entry point
  is not called, so the interpreter is left running. It is \<^verbatim>\<open>Finalize\<close> that calls the
  module-cleanup and the interpreter-stop entry points, in every world.
\<close>

theorem C6_module_init_failure_leaves_interpreter_running:
  "init_status rt w \<noteq> 0 \<longrightarrow>
     fst (Initialize rt w) = Some (Errorf ''failed to initialize chat template module'') \<and>
     filter is_boundary_call (new_events w (snd (Initialize rt w))) =
       [Py_InitializeGo, Py_InitChatTemplateModule] \<and>
     Py_FinalizeGo \<notin> set (filter is_boundary_call (new_events w (snd (Initialize rt w)))) \<and>
     filter is_boundary_call (new_events (snd (Initialize rt w)) (Finalize rt (snd (Initialize rt w)))) =
       [Py_CleanupChatTemplateModule, Py_FinalizeGo]"
  using Initialize_fails [of rt w] Finalize_boundary_calls [of "snd (Initialize rt w)" rt]
  by simp

theorem C6_module_init_failure_witness:
  "init_status (fake_runtime 1 None) world0 \<noteq> 0 \<and>
   fst (Initialize (fake_runtime 1 None) world0) =
     Some (Errorf ''failed to initialize chat template module'') \<and>
   filter is_boundary_call (new_events world0 (snd (Initialize (fake_runtime 1 None) world0))) =
     [Py_InitializeGo, Py_InitChatTemplateModule]"
  using C6_module_init_failure_leaves_interpreter_running [of "fake_runtime 1 None" world0]
  by simp

subsection \<open>The null result\<close>

text \<open>
  Claim C3. When the render entry point answers with the null pointer,
  \<^verbatim>\<open>RenderChatTemplate\<close> returns a nil response and the error
  \<^verbatim>\<open>python render_jinja_template failed\<close> (the spec's \<open>ForeignCallFailed\<close>); nothing is parsed.
  And on every path, for every request, serializer, deserializer and C side: when the
  error returned is not nil, the response returned is nil.
\<close>

theorem C3_null_result_is_an_error:
  "(M r = Inr j \<longrightarrow> render_answer rt j w = None \<longrightarrow>
      fst (RenderChatTemplate M U rt (Some r) w) =
        (None, Some (Errorf ''python render_jinja_template failed''))) \<and>
   (snd (fst (RenderChatTemplate M U rt req w)) \<noteq> None \<longrightarrow>
      fst (fst (RenderChatTemplate M U rt req w)) = None)"
  using render_null(1) [where M=M and r=r and U=U and rt=rt and w=w and j=j]
    render_error_no_response [of M U rt req w]
  by blast

theorem C3_null_result_witness:
  "Marshal_example hi_request = Inr hi_JSON \<and>
   render_answer (fake_runtime 0 None) hi_JSON world0 = None \<and>
   fst (RenderChatTemplate Marshal_example Unmarshal_example (fake_runtime 0 None)
          (Some hi_request) world0) =
     (None, Some (Errorf ''python render_jinja_template failed''))"
  using C3_null_result_is_an_error [where M=Marshal_example and U=Unmarshal_example
      and r=hi_request and rt="fake_runtime 0 None" and w=world0 and j=hi_JSON
      and req="Some hi_request"]
    Marshal_hi_request
  by simp

subsection \<open>A result that does not parse\<close>

lemma Unmarshal_x:
  "Unmarshal_example (c_str ''x'') =
     Inl (SyntaxError (''invalid character '' @ [CHR 0x27] @ ''x'' @ [CHR 0x27] @
            '' looking for beginning of value'') 1)"
  by code_simp

lemma Unmarshal_x_space:
  "Unmarshal_example (c_str ''x '') =
     Inl (SyntaxError (''invalid character '' @ [CHR 0x27] @ ''x'' @ [CHR 0x27] @
            '' looking for beginning of value'') 1)"
  by code_simp

text \<open>
  Claim C5 as stated fails: the error returned for a result that does not parse does not
  hold the byte length of the result. The results \<^verbatim>\<open>x\<close> (one byte) and \<^verbatim>\<open>x\<close> followed by a
  space (two bytes) give the same error value, the one \<^verbatim>\<open>json.Unmarshal\<close> reports, whose
  offset 1 is where the offending byte stands.
\<close>

theorem C5_counterexample:
  "fst (RenderChatTemplate Marshal_example Unmarshal_example (fake_runtime 0 (Some ''x''))
          (Some hi_request) world0) =
     (None, Some (ErrorfW ''failed to unmarshal response: ''
        (SyntaxError (''invalid character '' @ [CHR 0x27] @ ''x'' @ [CHR 0x27] @
           '' looking for beginning of value'') 1))) \<and>
   fst (RenderChatTemplate Marshal_example Unmarshal_example (fake_runtime 0 (Some ''x ''))
          (Some hi_request) world0) =
     (None, Some (ErrorfW ''failed to unmarshal response: ''
        (SyntaxError (''invalid character '' @ [CHR 0x27] @ ''x'' @ [CHR 0x27] @
           '' looking for beginning of value'') 1))) \<and>
   length (c_str ''x'') = 1 \<and> length (c_str ''x '') = 2"
proof -
  have "length (c_str ''x'') = 1" "length (c_str ''x '') = 2"
    by (simp_all add: c_str_def)
  then show ?thesis
    using render_decode_fails(1) [where M=Marshal_example and U=Unmarshal_example
        and r=hi_request and rt="fake_runtime 0 (Some ''x'')" and w=world0,
        OF Marshal_hi_request _ Unmarshal_x]
      render_decode_fails(1) [where M=Marshal_example and U=Unmarshal_example
        and r=hi_request and rt="fake_runtime 0 (Some ''x '')" and w=world0,
        OF Marshal_hi_request _ Unmarshal_x_space]
    by simp
qed

text \<open>
  Claim C5, amended. When the render entry point answers with a buffer that
  \<^verbatim>\<open>json.Unmarshal\<close> rejects, \<^verbatim>\<open>RenderChatTemplate\<close> returns a nil response and an error that
  wraps, behind the prefix \<^verbatim>\<open>failed to unmarshal response: \<close>, the error \<^verbatim>\<open>json.Unmarshal\<close>
  reported, and nothing else. The byte length of the result received goes to the log
  (the DEBUG line \<^verbatim>\<open>Received JSON from Python\<close>, under the key \<^verbatim>\<open>length\<close>), not into the error.
\<close>

theorem C5_decoding_error_wraps_library_error:
  "M r = Inr j \<longrightarrow> render_answer rt j w = Some res \<longrightarrow> U (c_str res) = Inl err \<longrightarrow>
     fst (RenderChatTemplate M U rt (Some r) w) =
       (None, Some (ErrorfW ''failed to unmarshal response: '' err)) \<and>
     Info DEBUG ''RenderChatTemplate'' ''Received JSON from Python''
         [(''length'', length (c_str res))]
       \<in> set (new_events w (snd (RenderChatTemplate M U rt (Some r) w)))"
  using render_decode_fails(1,3) [where M=M and r=r and U=U and rt=rt and w=w and j=j
      and res=res and e=err]
  by blast

theorem C5_decoding_error_witness:
  "Marshal_example hi_request = Inr hi_JSON \<and>
   render_answer (fake_runtime 0 (Some ''x '')) hi_JSON world0 = Some ''x '' \<and>
   Info DEBUG ''RenderChatTemplate'' ''Received JSON from Python'' [(''length'', 2)]
     \<in> set (new_events world0
          (snd (RenderChatTemplate Marshal_example Unmarshal_example
                  (fake_runtime 0 (Some ''x '')) (Some hi_request) world0)))"
proof -
  have "length (c_str ''x '') = 2"
    by (simp add: c_str_def)
  then show ?thesis
    using C5_decoding_error_wraps_library_error [where M=Marshal_example
        and U=Unmarshal_example and r=hi_request and rt="fake_runtime 0 (Some ''x '')"
        and w=world0 and j=hi_JSON and res="''x ''"]
      Marshal_hi_request Unmarshal_x_space
    by simp
qed

subsection \<open>What the decoder leaves unset\<close>

lemma first_index_less: "first_index P xs = Some i \<Longrightarrow> i < length xs"
  by (induction xs arbitrary: i) (auto split: if_splits)

lemma field_index_less: "field_index names k = Some i \<Longrightarrow> i < length names"
  by (auto simp: field_index_def first_index_less split: option.splits)

lemma store_fields_keeps:
  assumes "\<forall>k \<in> set (map fst kvs). field_index names k \<noteq> Some i"
    and "\<And>i' j x y. i' \<noteq> i \<Longrightarrow> i' < length names \<Longrightarrow> store i' j x = Done y \<Longrightarrow> P y = P x"
    and "store_fields names store seen kvs r = Done r'"
  shows "P r' = P r"
  using assms
proof (induction kvs arbitrary: seen r)
  case Nil
  then show ?case by simp
next
  case (Cons kv kvs)
  obtain k v where kv: "kv = (k, v)" by (cases kv)
  show ?case
  proof (cases "field_index names k")
    case None
    then show ?thesis using Cons kv by simp
  next
    case (Some i')
    then have ne: "i' \<noteq> i" using Cons.prems(1) kv by auto
    have less: "i' < length names" using Some by (rule field_index_less)
    from Cons.prems(3) Some kv obtain x where
      x: "store i' v r = Done x" and rest: "store_fields names store (i' # seen) kvs x = Done r'"
      by (cases "store i' v r") (auto split: if_splits)
    have "P r' = P x" using Cons.IH [OF _ Cons.prems(2) rest] Cons.prems(1) by simp
    then show ?thesis using Cons.prems(2) [OF ne less x] by simp
  qed
qed

lemma store_Response_keeps:
  "i \<noteq> 1 \<Longrightarrow> i < 2 \<Longrightarrow> store_RenderJinjaTemplateResponse i j x = Done y \<Longrightarrow>
   GenerationIndices y = GenerationIndices x"
  by (cases "store_slice ''[]string'' store_string j")
     (auto simp: store_RenderJinjaTemplateResponse_def split: if_splits)

lemma missing_generation_indices:
  assumes "checkValid data = Inr (JObject kvs)"
    and "\<forall>k \<in> set (map fst kvs). field_index [''rendered_chats'', ''generation_indices''] k \<noteq> Some 1"
    and "Unmarshal_RenderJinjaTemplateResponse data = Done resp"
  shows "GenerationIndices resp = None"
proof -
  from assms(1,3) have
    "store_fields [''rendered_chats'', ''generation_indices''] store_RenderJinjaTemplateResponse []
       kvs \<lparr>RenderedChats = None, GenerationIndices = None\<rparr> = Done resp"
    by (simp add: Unmarshal_RenderJinjaTemplateResponse_def of_sum_def)
  from store_fields_keeps [where P=GenerationIndices, OF assms(2) _ this] store_Response_keeps
  show ?thesis by simp
qed

lemma Marshal_masked_request: "Marshal_example masked_request = Inr masked_JSON"
  by code_simp

lemma Unmarshal_mismatched_result:
  "Unmarshal_example (c_str mismatched_result) =
     Inr \<lparr>RenderedChats = Some [''HI''],
          GenerationIndices = Some [Some [Some [0, 1]], Some [Some [2, 3]]]\<rparr>"
  by code_simp

lemma checkValid_without_indices:
  "checkValid (c_str without_indices_result) =
     Inr (JObject [(''rendered_chats'', JArray [JString ''HI''])])"
  by code_simp

lemma Unmarshal_without_indices:
  "Unmarshal_RenderJinjaTemplateResponse (c_str without_indices_result) =
     Done \<lparr>RenderedChats = Some [''HI''], GenerationIndices = None\<rparr>"
  by code_simp

text \<open>
  Claim C10. Whatever response \<^verbatim>\<open>json.Unmarshal\<close> builds from the result buffer,
  \<^verbatim>\<open>RenderChatTemplate\<close> returns it as it is, with a nil error: nothing compares it with the
  request, so the lengths of \<^verbatim>\<open>GenerationIndices\<close> and \<^verbatim>\<open>RenderedChats\<close> may differ also when the
  request set the assistant-token-mask flag. And when no key of the result object names
  the field \<^verbatim>\<open>generation_indices\<close>, the \<^verbatim>\<open>GenerationIndices\<close> of the decoded response is nil.
\<close>

theorem C10_response_returned_as_decoded:
  "(M r = Inr j \<longrightarrow> render_answer rt j w = Some res \<longrightarrow> U (c_str res) = Inr resp \<longrightarrow>
      fst (RenderChatTemplate M U rt (Some r) w) = (Some resp, None)) \<and>
   (checkValid data = Inr (JObject kvs) \<longrightarrow>
      (\<forall>k \<in> set (map fst kvs).
          field_index [''rendered_chats'', ''generation_indices''] k \<noteq> Some 1) \<longrightarrow>
      Unmarshal_RenderJinjaTemplateResponse data = Done resp' \<longrightarrow>
      GenerationIndices resp' = None)"
  using render_ok(1) [where M=M and r=r and U=U and rt=rt and w=w and j=j and res=res
      and resp=resp]
    missing_generation_indices [of data kvs resp']
  by blast

theorem C10_response_returned_witness:
  "Marshal_example masked_request = Inr masked_JSON \<and>
   ReturnAssistantTokensMask masked_request \<and>
   fst (RenderChatTemplate Marshal_example Unmarshal_example
          (fake_runtime 0 (Some mismatched_result)) (Some masked_request) world0) =
     (Some \<lparr>RenderedChats = Some [''HI''],
             GenerationIndices = Some [Some [Some [0, 1]], Some [Some [2, 3]]]\<rparr>, None) \<and>
   Unmarshal_RenderJinjaTemplateResponse (c_str without_indices_result) =
     Done \<lparr>RenderedChats = Some [''HI''], GenerationIndices = None\<rparr>"
proof -
  have "ReturnAssistantTokensMask masked_request"
    by (simp add: masked_request_def)
  moreover have "\<forall>k \<in> set (map fst [(''rendered_chats'', JArray [JString ''HI''])]).
      field_index [''rendered_chats'', ''generation_indices''] k \<noteq> Some 1"
    by code_simp
  ultimately show ?thesis
    using C10_response_returned_as_decoded [where M=Marshal_example and U=Unmarshal_example
        and r=masked_request and rt="fake_runtime 0 (Some mismatched_result)" and w=world0
        and j=masked_JSON and res=mismatched_result
        and resp="\<lparr>RenderedChats = Some [''HI''],
             GenerationIndices = Some [Some [Some [0, 1]], Some [Some [2, 3]]]\<rparr>"
        and data="c_str without_indices_result"
        and kvs="[(''rendered_chats'', JArray [JString ''HI''])]"
        and resp'="\<lparr>RenderedChats = Some [''HI''], GenerationIndices = None\<rparr>"]
      Marshal_masked_request Unmarshal_mismatched_result checkValid_without_indices
      Unmarshal_without_indices
    by simp
qed

subsection \<open>Bytes that are not UTF-8\<close>




















subsection \<open>What the log holds of a fetch request\<close>


lemma is_log_stats_line [simp]: "is_log (stats_line l m)"
  by (simp add: stats_line_def)












lemma fetch_answer_fake [simp]: "fetch_answer (fake_runtime status answer) j w = answer"
  by (simp add: fetch_answer_def fake_runtime_def)

lemma fetch_stats_after_fake [simp]:
  "fetch_stats_after (fake_runtime status answer) j w = zero_stats"
  by (simp add: fetch_stats_after_def fake_runtime_def Let_def)




end
